theory Spec2Isabelle
  imports Main
begin

section \<open>The convert-to-cad edge function\<close>

text \<open>
  The repository is one request handler,
  \<^verbatim>\<open>supabase/functions/convert-to-cad/index.ts\<close>. It reads a conversion job
  and its specification rows through the Supabase client, posts them to a CAD service,
  uploads the three returned files to a storage bucket and records the outcome on the
  job. The handler is embedded as a function from a request and the state of its
  collaborators to an outcome and the new state; every call it issues is appended to a
  trace, so that the order of its effects can be stated.
\<close>

subsection \<open>JavaScript values\<close>

text \<open>
  Primitive values as they occur in rows and in object literals. Truthiness is the
  JavaScript one: \<^verbatim>\<open>undefined\<close>, \<^verbatim>\<open>null\<close>, \<^verbatim>\<open>false\<close>,
  \<^verbatim>\<open>0\<close> and the empty string are falsy.
\<close>

datatype jsval = JUndefined | JNull | JBool bool | JNum int | JStr string

fun truthy :: "jsval \<Rightarrow> bool" where
  "truthy JUndefined = False"
| "truthy JNull = False"
| "truthy (JBool b) = b"
| "truthy (JNum n) = (n \<noteq> 0)"
| "truthy (JStr s) = (s \<noteq> [])"

text \<open>
  The request body is declared as \<^verbatim>\<open>{ conversionId: string; userId: string }\<close>;
  nothing checks it at run time, so a member may be absent. A member is modelled as a
  \<open>string option\<close>, \<open>None\<close> being \<^verbatim>\<open>undefined\<close>. \<open>js_string\<close> is the
  conversion a template literal and a filter value apply.
\<close>

definition js_of :: "string option \<Rightarrow> jsval" where
  "js_of m = (case m of None \<Rightarrow> JUndefined | Some s \<Rightarrow> JStr s)"

definition js_string :: "string option \<Rightarrow> string" where
  "js_string m = (case m of None \<Rightarrow> ''undefined'' | Some s \<Rightarrow> s)"

text \<open>
  The argument of \<^verbatim>\<open>JSON.stringify\<close>: a value, an array, an object literal, or a
  value under the coercion \<^verbatim>\<open>Number(...)\<close>, which is kept symbolic.
\<close>

datatype json = Val jsval | Number_of jsval | Arr "json list" | Obj "(string \<times> json) list"

text \<open>
  Thrown values. \<^verbatim>\<open>String(err)\<close> is \<^verbatim>\<open>Error.prototype.toString\<close>.
\<close>

datatype js_error = Js_error (err_name: string) (err_message: string)

definition new_Error :: "string \<Rightarrow> js_error" where
  "new_Error msg = Js_error ''Error'' msg"

definition String_of :: "js_error \<Rightarrow> string" where
  "String_of err =
     (if err_name err = [] then err_message err
      else if err_message err = [] then err_name err
      else err_name err @ '': '' @ err_message err)"

subsection \<open>Collaborators\<close>

text \<open>
  The three tables the handler queries. Each is read and written through one filter,
  \<^verbatim>\<open>.eq("id", v)\<close> on \<open>cad_conversions\<close> and \<^verbatim>\<open>.eq("conversion_id", v)\<close>
  on the two specification tables, so a table is given by the rows that match each
  filter text. A row maps column names to values; reading a missing column gives
  \<^verbatim>\<open>undefined\<close>.
\<close>

datatype table = cad_conversions | gemstone_specs | metal_specs

type_synonym row = "string \<Rightarrow> jsval option"

type_synonym patch = "(string \<times> jsval) list"

definition get_prop :: "row \<Rightarrow> string \<Rightarrow> jsval" where
  "get_prop r c = (case r c of None \<Rightarrow> JUndefined | Some v \<Rightarrow> v)"

text \<open>
  The CAD service's answer. \<^verbatim>\<open>fetch\<close> rejects on a transport failure, which
  includes the expiry of the abort signal. \<^verbatim>\<open>text()\<close> and \<^verbatim>\<open>json()\<close> may
  reject as well. The parsed body is either \<^verbatim>\<open>null\<close> or a value whose three members
  are read; a member is the string it carries, an absent member is \<open>None\<close> and goes
  into the blob as the text \<^verbatim>\<open>undefined\<close>.
\<close>

datatype cad_json = Cad_null | Cad_obj "string option" "string option" "string option"

record http_response =
  resp_ok :: bool
  resp_text :: "js_error + string"
  resp_json :: "js_error + cad_json"

datatype fetch_result = Rejected js_error | Resolved http_response

record fetch_init =
  fetch_method :: string
  fetch_headers :: "(string \<times> string) list"
  fetch_body :: json
  fetch_timeout_ms :: nat

text \<open>
  The calls the handler issues. An upload is recorded with its arguments (bucket, path,
  content of the blob, the options \<^verbatim>\<open>contentType\<close> and \<^verbatim>\<open>upsert\<close>) and with its
  answer: \<open>Inl\<close> when the call rejected, \<open>Inr\<close> with the error field of the result
  otherwise.
\<close>

datatype upload_failure = Refused string | Broken js_error

datatype effect =
    Db_select table string
  | Db_select_single table string
  | Db_update table patch string
  | Http_fetch string fetch_init
  | Storage_upload string string string string bool "js_error + string option"
  | Storage_public_url string string

text \<open>
  The state of the collaborators: the rows of the tables, the objects of the buckets
  (the content, by bucket and object key), and what the handler cannot control:
  which reads fail, which uploads fail, the public URL the storage client forms for a
  path, the answers of the CAD service, the environment variable \<open>CAD_SERVICE_URL\<close> and
  the clock, read as a function of the number of calls issued so far.
\<close>

record world =
  db :: "table \<Rightarrow> string \<Rightarrow> row list"
  select_fault :: "table \<Rightarrow> string option"
  storage :: "string \<Rightarrow> string \<Rightarrow> string option"
  upload_fault :: "string \<Rightarrow> upload_failure option"
  public_url :: "string \<Rightarrow> string \<Rightarrow> string"
  cad_service :: "string \<Rightarrow> fetch_init \<Rightarrow> fetch_result"
  CAD_SERVICE_URL :: "string option"
  clock :: "nat \<Rightarrow> string"
  trace :: "effect list"

definition emit :: "effect \<Rightarrow> world \<Rightarrow> world" where
  "emit e w = w\<lparr>trace := trace w @ [e]\<rparr>"

text \<open>
  The Supabase client resolves every query to a pair \<^verbatim>\<open>{data, error}\<close> and does not
  reject. A failed query (\<open>select_fault\<close>) has no data. \<^verbatim>\<open>.single()\<close> is an
  error unless exactly one row matches. An update rewrites the given columns of the
  matching rows; the handler never looks at its result.
\<close>

definition query_eq :: "table \<Rightarrow> string \<Rightarrow> world \<Rightarrow> row list option \<times> string option" where
  "query_eq t v w =
     (case select_fault w t of
        Some e \<Rightarrow> (None, Some e)
      | None \<Rightarrow> (Some (db w t v), None))"

definition query_single :: "table \<Rightarrow> string \<Rightarrow> world \<Rightarrow> row option \<times> string option" where
  "query_single t v w =
     (case select_fault w t of
        Some e \<Rightarrow> (None, Some e)
      | None \<Rightarrow>
         (case db w t v of
            [r] \<Rightarrow> (Some r, None)
          | _ \<Rightarrow> (None, Some ''JSON object requested, multiple (or no) rows returned'')))"

definition select_eq :: "table \<Rightarrow> string \<Rightarrow> world \<Rightarrow> (row list option \<times> string option) \<times> world" where
  "select_eq t v w = (query_eq t v w, emit (Db_select t v) w)"

definition select_eq_single :: "table \<Rightarrow> string \<Rightarrow> world \<Rightarrow> (row option \<times> string option) \<times> world" where
  "select_eq_single t v w = (query_single t v w, emit (Db_select_single t v) w)"

definition update_eq :: "table \<Rightarrow> patch \<Rightarrow> string \<Rightarrow> world \<Rightarrow> world" where
  "update_eq t p v w =
     emit (Db_update t p v)
       (w\<lparr>db := (db w)(t := (db w t)(v := map (\<lambda>r. r ++ map_of p) (db w t v)))\<rparr>)"

text \<open>
  The key under which the storage client stores an upload: it removes one leading and one
  trailing slash from the path it is given and replaces every run of slashes by one. The
  paths of the handler begin and end with a letter, so only a run of slashes inside the
  conversion id makes the key differ from the path.
\<close>

fun collapse_slashes :: "string \<Rightarrow> string" where
  "collapse_slashes [] = []"
| "collapse_slashes (c # cs) =
     (if c = CHR ''/'' \<and> cs \<noteq> [] \<and> hd cs = CHR ''/''
      then collapse_slashes cs
      else c # collapse_slashes cs)"

definition strip_slash :: "string \<Rightarrow> string" where
  "strip_slash path =
     (let q = (case path of [] \<Rightarrow> [] | c # cs \<Rightarrow> if c = CHR ''/'' then cs else path)
      in if q \<noteq> [] \<and> last q = CHR ''/'' then butlast q else q)"

definition object_key :: "string \<Rightarrow> string" where
  "object_key path = collapse_slashes (strip_slash path)"


text \<open>
  The storage client answers an error of the storage service in the \<open>error\<close> field of
  its result (\<open>Refused\<close>) and rethrows any other failure, so an upload may also reject
  (\<open>Broken\<close>). Without \<^verbatim>\<open>upsert\<close> an upload to an occupied key is refused; with
  it the object is replaced. The body of the handler's uploads is a blob made without a
  type, \<^verbatim>\<open>new Blob([...])\<close>. For a blob the client sends the blob itself and makes no
  use of the \<^verbatim>\<open>contentType\<close> option, so the option is an argument of the call and
  nothing more: the stored object is the content, and the type the service records for
  it is not modelled.
\<close>

definition storage_upload ::
  "string \<Rightarrow> string \<Rightarrow> string \<Rightarrow> string \<Rightarrow> bool \<Rightarrow> world \<Rightarrow>
   (js_error + string option) \<times> world" where
  "storage_upload b path content ctype upsert w =
     (let key = object_key path;
          res =
        (case upload_fault w path of
           Some (Broken err) \<Rightarrow> Inl err
         | Some (Refused e) \<Rightarrow> Inr (Some e)
         | None \<Rightarrow>
            (case storage w b key of
               Some old \<Rightarrow> if upsert then Inr None else Inr (Some ''The resource already exists'')
             | None \<Rightarrow> Inr None));
          w' = (if res = Inr None
                then w\<lparr>storage := (storage w)(b := (storage w b)(key \<mapsto> content))\<rparr>
                else w)
      in (res, emit (Storage_upload b path content ctype upsert res) w'))"

text \<open>
  The public URL is formed from the path as it is given: here the client does not
  normalise it.
\<close>

definition get_public_url :: "string \<Rightarrow> string \<Rightarrow> world \<Rightarrow> string \<times> world" where
  "get_public_url b path w = (public_url w b path, emit (Storage_public_url b path) w)"

definition fetch :: "string \<Rightarrow> fetch_init \<Rightarrow> world \<Rightarrow> fetch_result \<times> world" where
  "fetch url init w = (cad_service w url init, emit (Http_fetch url init) w)"

definition now_iso :: "world \<Rightarrow> string" where
  "now_iso w = clock w (length (trace w))"

definition CAD_URL :: "world \<Rightarrow> string" where
  "CAD_URL w = js_string (CAD_SERVICE_URL w)"

definition blob_of :: "string option \<Rightarrow> string" where
  "blob_of part = js_string part"

subsection \<open>The handler\<close>

text \<open>
  The result of \<^verbatim>\<open>await req.json()\<close>: it rejects (\<open>Invalid_json\<close>), or gives the
  JSON value \<^verbatim>\<open>null\<close>, whose destructuring raises, or gives a value with the two
  members read by the destructuring. A JSON value that is not an object has neither
  member.
\<close>

datatype parsed_body = Invalid_json | Json_null | Json_members "string option" "string option"

record request =
  req_method :: string
  req_json :: parsed_body

record response =
  status :: nat
  headers :: "(string \<times> string) list"
  body :: "json option"

datatype outcome = Returned response | Uncaught js_error

definition CORS :: "(string \<times> string) list" where
  "CORS =
     [(''Access-Control-Allow-Origin'', ''*''),
      (''Access-Control-Allow-Headers'', ''authorization, x-client-info, apikey, content-type''),
      (''Access-Control-Allow-Methods'', ''POST, OPTIONS'')]"

definition json_headers :: "(string \<times> string) list" where
  "json_headers = CORS @ [(''Content-Type'', ''application/json'')]"

text \<open>
  Steps 6 to 8 of the protected region: uploads, public URLs, final update. The result
  of an upload is awaited and dropped, so only a rejecting upload ends the run.
\<close>

definition upload_and_finalize ::
  "string option \<Rightarrow> cad_json \<Rightarrow> world \<Rightarrow> (js_error + response) \<times> world" where
  "upload_and_finalize conversionId cadJson w =
     (case cadJson of
        Cad_null \<Rightarrow>
          (Inl (Js_error ''TypeError'' ''Cannot read properties of null (reading 'step_file')''), w)
      | Cad_obj step_file stl_file obj_file \<Rightarrow>
         (let key = js_string conversionId;
              step_path = ''step/design_'' @ key @ ''.step'';
              stl_path = ''stl/design_'' @ key @ ''.stl'';
              obj_path = ''obj/design_'' @ key @ ''.obj'';
              (r1, w1) = storage_upload ''cad-files'' step_path (blob_of step_file) ''model/step'' True w
          in case r1 of
               Inl err \<Rightarrow> (Inl err, w1)
             | Inr _ \<Rightarrow>
          (let (r2, w2) = storage_upload ''cad-files'' stl_path (blob_of stl_file) ''model/stl'' True w1
           in case r2 of
                Inl err \<Rightarrow> (Inl err, w2)
              | Inr _ \<Rightarrow>
          (let (r3, w3) = storage_upload ''cad-files'' obj_path (blob_of obj_file) ''model/obj'' True w2
           in case r3 of
                Inl err \<Rightarrow> (Inl err, w3)
              | Inr _ \<Rightarrow>
          (let (stepUrl, w4) = get_public_url ''cad-files'' step_path w3;
               (stlUrl, w5) = get_public_url ''cad-files'' stl_path w4;
               (objUrl, w6) = get_public_url ''cad-files'' obj_path w5;
               w7 = update_eq cad_conversions
                      [(''status'', JStr ''completed''),
                       (''current_step'', JNum 4),
                       (''cad_file_url'', JStr stepUrl),
                       (''stl_file_url'', JStr stlUrl),
                       (''obj_file_url'', JStr objUrl),
                       (''completed_at'', JStr (now_iso w6))]
                      key w6
           in (Inr \<lparr>status = 200, headers = CORS,
                     body = Some (Obj [(''success'', Val (JBool True)),
                                       (''conversionId'', Val (js_of conversionId))])\<rparr>,
               w7))))))"

text \<open>Step 5: the request object and the call of the CAD service.\<close>

definition cadReq :: "string option \<Rightarrow> jsval \<Rightarrow> row list option \<Rightarrow> row \<Rightarrow> json" where
  "cadReq conversionId svgUrl gemSpecs metalSpecs =
     Obj [(''svg_url'', Val svgUrl),
          (''design_id'', Val (js_of conversionId)),
          (''gemstone_specs'',
             (case gemSpecs of
                None \<Rightarrow> Arr []
              | Some gs \<Rightarrow>
                 Arr (map (\<lambda>g. Obj [(''shape'', Val (get_prop g ''shape'')),
                                      (''size_mm'', Number_of (get_prop g ''mm_size'')),
                                      (''dia_wt'', Number_of (get_prop g ''dia_wt'')),
                                      (''quantity'', Val (get_prop g ''quantity'')),
                                      (''setting_type'', Val (get_prop g ''setting_type''))]) gs))),
          (''metal_specs'',
             Obj [(''type'', Val (get_prop metalSpecs ''color'')),
                  (''karat'', Val (get_prop metalSpecs ''karat'')),
                  (''weight_grams'', Number_of (get_prop metalSpecs ''gold_weight'')),
                  (''tone'', Val (get_prop metalSpecs ''tone''))])]"

definition call_cad_service ::
  "string option \<Rightarrow> json \<Rightarrow> world \<Rightarrow> (js_error + response) \<times> world" where
  "call_cad_service conversionId req w =
     (let (cadResp, w1) =
            fetch (CAD_URL w @ ''/convert'')
              \<lparr>fetch_method = ''POST'',
               fetch_headers = [(''Content-Type'', ''application/json'')],
               fetch_body = req,
               fetch_timeout_ms = 300000\<rparr> w
      in case cadResp of
           Rejected err \<Rightarrow> (Inl err, w1)
         | Resolved resp \<Rightarrow>
            if \<not> resp_ok resp then
              (case resp_text resp of
                 Inl err \<Rightarrow> (Inl err, w1)
               | Inr txt \<Rightarrow> (Inl (new_Error (''CAD service error: '' @ txt)), w1))
            else
              (case resp_json resp of
                 Inl err \<Rightarrow> (Inl err, w1)
               | Inr cadJson \<Rightarrow> upload_and_finalize conversionId cadJson w1))"

text \<open>The protected region, steps 1 to 4 and then the rest.\<close>

definition protected_region :: "string option \<Rightarrow> world \<Rightarrow> (js_error + response) \<times> world" where
  "protected_region conversionId w =
     (let key = js_string conversionId;
          ((conv, convErr), w1) = select_eq_single cad_conversions key w
      in case (convErr, conv) of
           (Some e, _) \<Rightarrow> (Inl (new_Error ''Conversion not found''), w1)
         | (None, None) \<Rightarrow> (Inl (new_Error ''Conversion not found''), w1)
         | (None, Some conv) \<Rightarrow>
            (let svgUrl = get_prop conv ''vectorized_svg_url''
             in if \<not> truthy svgUrl then (Inl (new_Error ''No vector SVG URL on conversion''), w1)
                else
                  (let w2 = update_eq cad_conversions
                              [(''status'', JStr ''generating_cad''), (''current_step'', JNum 3)] key w1;
                       ((gemSpecs, _), w3) = select_eq gemstone_specs key w2;
                       ((metalSpecs, _), w4) = select_eq_single metal_specs key w3
                   in case metalSpecs of
                        None \<Rightarrow> (Inl (new_Error ''Missing metal specs''), w4)
                      | Some metalSpecs \<Rightarrow>
                          call_cad_service conversionId
                            (cadReq conversionId svgUrl gemSpecs metalSpecs) w4)))"

text \<open>The catch block.\<close>

definition failed_patch :: "js_error \<Rightarrow> patch" where
  "failed_patch err =
     [(''status'', JStr ''failed''), (''current_step'', JNum 0),
      (''error_message'', JStr (String_of err))]"

definition catch_block :: "string option \<Rightarrow> js_error \<Rightarrow> world \<Rightarrow> response \<times> world" where
  "catch_block conversionId err w =
     (let w1 = (if truthy (js_of conversionId)
                then update_eq cad_conversions (failed_patch err) (js_string conversionId) w
                else w)
      in (\<lparr>status = 500, headers = json_headers,
           body = Some (Obj [(''success'', Val (JBool False)),
                             (''error'', Val (JStr (String_of err)))])\<rparr>,
          w1))"

definition handler :: "request \<Rightarrow> world \<Rightarrow> outcome \<times> world" where
  "handler req w =
     (if req_method req = ''OPTIONS'' then
        (Returned \<lparr>status = 204, headers = CORS, body = None\<rparr>, w)
      else if req_method req \<noteq> ''POST'' then
        (Returned \<lparr>status = 405, headers = json_headers,
                   body = Some (Obj [(''error'', Val (JStr ''Method Not Allowed''))])\<rparr>, w)
      else
        (case req_json req of
           Invalid_json \<Rightarrow>
             (Returned \<lparr>status = 400, headers = json_headers,
                        body = Some (Obj [(''error'', Val (JStr ''Invalid JSON''))])\<rparr>, w)
         | Json_null \<Rightarrow>
             (Uncaught (Js_error ''TypeError''
                 ''Cannot destructure property 'conversionId' of 'body' as it is null.''), w)
         | Json_members conversionId userId \<Rightarrow>
             (case protected_region conversionId w of
                (Inr resp, w1) \<Rightarrow> (Returned resp, w1)
              | (Inl err, w1) \<Rightarrow>
                  (let (resp, w2) = catch_block conversionId err w1 in (Returned resp, w2)))))"

text \<open>
  The state in which step 5 starts, when steps 1 to 4 have passed: the four calls of
  these steps have been issued and the job has been set to \<open>generating_cad\<close>.
\<close>

definition before_call :: "string \<Rightarrow> world \<Rightarrow> world" where
  "before_call key w =
     emit (Db_select_single metal_specs key)
       (emit (Db_select gemstone_specs key)
         (update_eq cad_conversions
            [(''status'', JStr ''generating_cad''), (''current_step'', JNum 3)] key
            (emit (Db_select_single cad_conversions key) w)))"

subsection \<open>Observations on a run\<close>

text \<open>
  The calls issued between two states, and the kinds of call the properties speak of.
  \<open>statuses\<close> reads the \<open>status\<close> column of the job rows with a given id.
\<close>

definition effects_since :: "world \<Rightarrow> world \<Rightarrow> effect list" where
  "effects_since w w' = drop (length (trace w)) (trace w')"

fun is_http :: "effect \<Rightarrow> bool" where
  "is_http (Http_fetch url init) = True"
| "is_http _ = False"

fun is_upload :: "effect \<Rightarrow> bool" where
  "is_upload (Storage_upload b path content ctype upsert res) = True"
| "is_upload _ = False"

fun is_job_store :: "effect \<Rightarrow> bool" where
  "is_job_store (Db_select t v) = True"
| "is_job_store (Db_select_single t v) = True"
| "is_job_store (Db_update t p v) = True"
| "is_job_store _ = False"

fun is_failed_update :: "effect \<Rightarrow> bool" where
  "is_failed_update (Db_update t p v) =
     (t = cad_conversions \<and> map_of p ''status'' = Some (JStr ''failed''))"
| "is_failed_update _ = False"

fun returned_status :: "outcome \<Rightarrow> nat option" where
  "returned_status (Returned r) = Some (status r)"
| "returned_status (Uncaught e) = None"

definition statuses :: "world \<Rightarrow> string \<Rightarrow> jsval list" where
  "statuses w key = map (\<lambda>r. get_prop r ''status'') (db w cad_conversions key)"

definition column :: "world \<Rightarrow> string \<Rightarrow> string \<Rightarrow> jsval list" where
  "column w key c = map (\<lambda>r. get_prop r c) (db w cad_conversions key)"

subsection \<open>A concrete scenario\<close>

text \<open>
  Job \<open>abc123\<close> with a vector URL, one metal specification and no gemstones; the CAD
  service answers with three files. \<open>world_of\<close> varies the job's id, the metal rows
  and the service's answer.
\<close>

definition job_of :: "string \<Rightarrow> row" where
  "job_of key =
     [''id'' \<mapsto> JStr key, ''status'' \<mapsto> JStr ''pending'',
      ''vectorized_svg_url'' \<mapsto> JStr ''https://x/vec.svg'']"

definition job_abc :: row where
  "job_abc = job_of ''abc123''"

definition metal_abc :: row where
  "metal_abc =
     [''color'' \<mapsto> JStr ''yellow'', ''karat'' \<mapsto> JNum 18,
      ''gold_weight'' \<mapsto> JStr ''5.2'', ''tone'' \<mapsto> JStr ''warm'']"

definition cad_ok :: http_response where
  "cad_ok =
     \<lparr>resp_ok = True, resp_text = Inr ''{}'',
      resp_json = Inr (Cad_obj (Some ''STEP'') (Some ''STL'') (Some ''OBJ''))\<rparr>"

definition cad_500 :: http_response where
  "cad_500 =
     \<lparr>resp_ok = False, resp_text = Inr ''boom'',
      resp_json = Inl (Js_error ''SyntaxError'' ''Unexpected token'')\<rparr>"

definition world_of :: "string \<Rightarrow> row list \<Rightarrow> http_response \<Rightarrow> world" where
  "world_of key metals resp =
     \<lparr>db = (\<lambda>t v. if v = key
                    then (case t of cad_conversions \<Rightarrow> [job_of key]
                                  | gemstone_specs \<Rightarrow> []
                                  | metal_specs \<Rightarrow> metals)
                    else []),
      select_fault = (\<lambda>t. None),
      storage = (\<lambda>b p. None),
      upload_fault = (\<lambda>p. None),
      public_url = (\<lambda>b p. ''https://store/'' @ b @ ''/'' @ p),
      cad_service = (\<lambda>u i. Resolved resp),
      CAD_SERVICE_URL = Some ''https://cad'',
      clock = (\<lambda>n. ''2024-01-01T00:00:00.000Z''),
      trace = []\<rparr>"

definition world0 :: world where
  "world0 = world_of ''abc123'' [metal_abc] cad_ok"

definition timeout_error :: js_error where
  "timeout_error = Js_error ''TimeoutError'' ''Signal timed out.''"

definition world_timeout :: world where
  "world_timeout = world0\<lparr>cad_service := (\<lambda>u i. Rejected timeout_error)\<rparr>"

definition world_gem_fault :: world where
  "world_gem_fault =
     world0\<lparr>select_fault := (\<lambda>t. if t = gemstone_specs then Some ''connection lost'' else None)\<rparr>"

definition world_upload_broken :: world where
  "world_upload_broken =
     world0\<lparr>upload_fault :=
               (\<lambda>p. if p = ''stl/design_abc123.stl''
                    then Some (Broken (Js_error ''TypeError'' ''fetch failed''))
                    else None)\<rparr>"

definition bad_post :: request where
  "bad_post = \<lparr>req_method = ''POST'', req_json = Invalid_json\<rparr>"

definition post :: "string option \<Rightarrow> string option \<Rightarrow> request" where
  "post conversionId userId = \<lparr>req_method = ''POST'', req_json = Json_members conversionId userId\<rparr>"

text \<open>The one call of the CAD service, as step 5 issues it.\<close>

abbreviation cad_call :: "json \<Rightarrow> world \<Rightarrow> effect" where
  "cad_call rq w \<equiv>
     Http_fetch (CAD_URL w @ ''/convert'')
       \<lparr>fetch_method = ''POST'',
        fetch_headers = [(''Content-Type'', ''application/json'')],
        fetch_body = rq,
        fetch_timeout_ms = 300000\<rparr>"

section \<open>Properties\<close>

subsection \<open>Auxiliary facts about the client operations and the paths of a run\<close>

text \<open>What each client operation leaves unchanged, and what it appends to the trace.\<close>

lemma query_emit [simp]:
  "query_eq t v (emit e w) = query_eq t v w"
  "query_single t v (emit e w) = query_single t v w"
  by (simp_all add: query_eq_def query_single_def emit_def split: option.splits)

lemma query_update_other [simp]:
  "t \<noteq> t' \<Longrightarrow> query_eq t v (update_eq t' p v' w) = query_eq t v w"
  "t \<noteq> t' \<Longrightarrow> query_single t v (update_eq t' p v' w) = query_single t v w"
  by (simp_all add: query_eq_def query_single_def update_eq_def emit_def split: option.splits)

lemma trace_emit [simp]: "trace (emit e w) = trace w @ [e]"
  by (simp add: emit_def)

lemma trace_update [simp]: "trace (update_eq t p v w) = trace w @ [Db_update t p v]"
  by (simp add: update_eq_def emit_def)

text \<open>The protected region up to the metal lookup, by the result of the job lookup.\<close>

lemma protected_region_not_found:
  assumes "fst (query_single cad_conversions (js_string cid) w) = None"
  shows "protected_region cid w =
           (Inl (new_Error ''Conversion not found''),
            emit (Db_select_single cad_conversions (js_string cid)) w)"
  using assms
  by (cases "query_single cad_conversions (js_string cid) w")
     (auto simp: protected_region_def select_eq_single_def Let_def split: option.splits)

lemma query_single_error:
  "snd (query_single t v w) = None \<longleftrightarrow> fst (query_single t v w) \<noteq> None"
  by (auto simp: query_single_def split: option.splits list.splits)

lemma protected_region_found:
  assumes "fst (query_single cad_conversions (js_string cid) w) = Some conv"
  shows "protected_region cid w =
     (let key = js_string cid;
          w1 = emit (Db_select_single cad_conversions key) w;
          svgUrl = get_prop conv ''vectorized_svg_url''
       in if \<not> truthy svgUrl then (Inl (new_Error ''No vector SVG URL on conversion''), w1)
          else
            (let w4 = emit (Db_select_single metal_specs key)
                        (emit (Db_select gemstone_specs key)
                          (update_eq cad_conversions
                              [(''status'', JStr ''generating_cad''), (''current_step'', JNum 3)] key w1))
             in case fst (query_single metal_specs key w) of
                  None \<Rightarrow> (Inl (new_Error ''Missing metal specs''), w4)
                | Some metalSpecs \<Rightarrow>
                    call_cad_service cid
                      (cadReq cid svgUrl (fst (query_eq gemstone_specs key w)) metalSpecs) w4))"
proof -
  have e: "snd (query_single cad_conversions (js_string cid) w) = None"
    using assms by (simp add: query_single_error)
  show ?thesis
    using assms e
    by (cases "query_single cad_conversions (js_string cid) w")
       (simp add: protected_region_def select_eq_single_def select_eq_def Let_def
             case_prod_unfold split: option.splits)
qed

lemma query_single_Some:
  "fst (query_single t v w) = Some r \<Longrightarrow> db w t v = [r] \<and> select_fault w t = None"
  by (auto simp: query_single_def split: option.splits list.splits)

lemma emit_fields [simp]:
  "db (emit e w) = db w"
  "storage (emit e w) = storage w"
  "select_fault (emit e w) = select_fault w"
  "upload_fault (emit e w) = upload_fault w"
  "public_url (emit e w) = public_url w"
  "cad_service (emit e w) = cad_service w"
  "CAD_SERVICE_URL (emit e w) = CAD_SERVICE_URL w"
  "clock (emit e w) = clock w"
  by (simp_all add: emit_def)

lemma update_eq_fields [simp]:
  "db (update_eq t p v w) = (db w)(t := (db w t)(v := map (\<lambda>r. r ++ map_of p) (db w t v)))"
  "storage (update_eq t p v w) = storage w"
  "select_fault (update_eq t p v w) = select_fault w"
  "upload_fault (update_eq t p v w) = upload_fault w"
  "public_url (update_eq t p v w) = public_url w"
  "cad_service (update_eq t p v w) = cad_service w"
  "CAD_SERVICE_URL (update_eq t p v w) = CAD_SERVICE_URL w"
  "clock (update_eq t p v w) = clock w"
  by (simp_all add: update_eq_def emit_def)

lemma storage_upload_fields [simp]:
  "trace (snd (storage_upload b path c ct up w)) =
     trace w @ [Storage_upload b path c ct up (fst (storage_upload b path c ct up w))]"
  "db (snd (storage_upload b path c ct up w)) = db w"
  "select_fault (snd (storage_upload b path c ct up w)) = select_fault w"
  "upload_fault (snd (storage_upload b path c ct up w)) = upload_fault w"
  "public_url (snd (storage_upload b path c ct up w)) = public_url w"
  "cad_service (snd (storage_upload b path c ct up w)) = cad_service w"
  "CAD_SERVICE_URL (snd (storage_upload b path c ct up w)) = CAD_SERVICE_URL w"
  "clock (snd (storage_upload b path c ct up w)) = clock w"
  by (simp_all add: storage_upload_def emit_def Let_def)

lemma storage_upload_upsert:
  "fst (storage_upload b path c ct True w) =
     (case upload_fault w path of
        None \<Rightarrow> Inr None
      | Some (Refused e) \<Rightarrow> Inr (Some e)
      | Some (Broken err) \<Rightarrow> Inl err)"
  "storage (snd (storage_upload b path c ct True w)) =
     (case upload_fault w path of
        None \<Rightarrow> (storage w)(b := (storage w b)(object_key path \<mapsto> c))
      | Some f \<Rightarrow> storage w)"
  by (simp_all add: storage_upload_def emit_def Let_def
        split: option.splits upload_failure.splits)

lemma storage_upload_accepted [simp]:
  assumes "upload_fault w path = None"
  shows "fst (storage_upload b path c ct True w) = Inr None"
    and "storage (snd (storage_upload b path c ct True w)) =
           (storage w)(b := (storage w b)(object_key path \<mapsto> c))"
  using assms by (simp_all add: storage_upload_upsert)

lemmas run_simps =
  handler_def call_cad_service_def upload_and_finalize_def fetch_def get_public_url_def
  catch_block_def now_iso_def CAD_URL_def Let_def case_prod_unfold

lemma Suc11: "Suc (Suc (Suc (Suc (Suc (Suc (Suc (Suc (Suc (Suc (Suc n)))))))))) = n + 11"
  by simp

text \<open>The run in which every step passes.\<close>

lemma success_run:
  assumes "req_method req = ''POST''"
    and "req_json req = Json_members cid uid"
    and "fst (query_single cad_conversions (js_string cid) w) = Some job"
    and "truthy (get_prop job ''vectorized_svg_url'')"
    and "fst (query_single metal_specs (js_string cid) w) = Some m"
    and "\<And>url init. cad_service w url init = Resolved resp"
    and "resp_ok resp"
    and "resp_json resp = Inr (Cad_obj sf tf obf)"
    and "upload_fault w (''step/design_'' @ js_string cid @ ''.step'') = None"
    and "upload_fault w (''stl/design_'' @ js_string cid @ ''.stl'') = None"
    and "upload_fault w (''obj/design_'' @ js_string cid @ ''.obj'') = None"
  shows "fst (handler req w) =
           Returned \<lparr>status = 200, headers = CORS,
                     body = Some (Obj [(''success'', Val (JBool True)),
                                       (''conversionId'', Val (js_of cid))])\<rparr>"
    and "trace (snd (handler req w)) = trace w @
          [Db_select_single cad_conversions (js_string cid),
           Db_update cad_conversions [(''status'', JStr ''generating_cad''), (''current_step'', JNum 3)] (js_string cid),
           Db_select gemstone_specs (js_string cid),
           Db_select_single metal_specs (js_string cid),
           Http_fetch (CAD_URL w @ ''/convert'')
              \<lparr>fetch_method = ''POST'',
               fetch_headers = [(''Content-Type'', ''application/json'')],
               fetch_body = cadReq cid (get_prop job ''vectorized_svg_url'') (fst (query_eq gemstone_specs (js_string cid) w)) m,
               fetch_timeout_ms = 300000\<rparr>,
           Storage_upload ''cad-files'' (''step/design_'' @ js_string cid @ ''.step'') (blob_of sf) ''model/step'' True (Inr None),
           Storage_upload ''cad-files'' (''stl/design_'' @ js_string cid @ ''.stl'') (blob_of tf) ''model/stl'' True (Inr None),
           Storage_upload ''cad-files'' (''obj/design_'' @ js_string cid @ ''.obj'') (blob_of obf) ''model/obj'' True (Inr None),
           Storage_public_url ''cad-files'' (''step/design_'' @ js_string cid @ ''.step''),
           Storage_public_url ''cad-files'' (''stl/design_'' @ js_string cid @ ''.stl''),
           Storage_public_url ''cad-files'' (''obj/design_'' @ js_string cid @ ''.obj''),
           Db_update cad_conversions
             [(''status'', JStr ''completed''),
              (''current_step'', JNum 4),
              (''cad_file_url'', JStr (public_url w ''cad-files'' (''step/design_'' @ js_string cid @ ''.step''))),
              (''stl_file_url'', JStr (public_url w ''cad-files'' (''stl/design_'' @ js_string cid @ ''.stl''))),
              (''obj_file_url'', JStr (public_url w ''cad-files'' (''obj/design_'' @ js_string cid @ ''.obj''))),
              (''completed_at'', JStr (clock w (length (trace w) + 11)))]
             (js_string cid)]"
  using assms
  by (simp_all add: run_simps protected_region_found Suc11)

lemmas path_splits = option.splits fetch_result.splits sum.splits cad_json.splits

lemma effects_since_eq: "trace w' = trace w @ es \<Longrightarrow> effects_since w w' = es"
  by (simp add: effects_since_def)

text \<open>Steps 5 to 8 append calls that are neither failed-updates nor, after the call of the
  CAD service itself, HTTP calls, and they add no job row.\<close>

lemma upload_step:
  obtains r w1 where "storage_upload b p c ct up w = (r, w1)"
    and "trace w1 = trace w @ [Storage_upload b p c ct up r]"
    and "db w1 = db w"
proof (cases "storage_upload b p c ct up w")
  case (Pair r w1)
  with storage_upload_fields(1,2)[of b p c ct up w] that show thesis
    by simp
qed

lemma upload_and_finalize_shape:
  "\<exists>es. trace (snd (upload_and_finalize cid cj w)) = trace w @ es
      \<and> filter is_failed_update es = [] \<and> filter is_http es = []
      \<and> length (db (snd (upload_and_finalize cid cj w)) cad_conversions k) =
          length (db w cad_conversions k)"
proof (cases cj)
  case Cad_null
  then show ?thesis by (simp add: upload_and_finalize_def)
next
  case (Cad_obj sf tf obf)
  obtain r1 w1 where s1:
    "storage_upload ''cad-files'' (''step/design_'' @ js_string cid @ ''.step'') (blob_of sf)
       ''model/step'' True w = (r1, w1)"
    "trace w1 = trace w @ [Storage_upload ''cad-files'' (''step/design_'' @ js_string cid @ ''.step'')
       (blob_of sf) ''model/step'' True r1]"
    "db w1 = db w"
    by (rule upload_step)
  obtain r2 w2 where s2:
    "storage_upload ''cad-files'' (''stl/design_'' @ js_string cid @ ''.stl'') (blob_of tf)
       ''model/stl'' True w1 = (r2, w2)"
    "trace w2 = trace w1 @ [Storage_upload ''cad-files'' (''stl/design_'' @ js_string cid @ ''.stl'')
       (blob_of tf) ''model/stl'' True r2]"
    "db w2 = db w1"
    by (rule upload_step)
  obtain r3 w3 where s3:
    "storage_upload ''cad-files'' (''obj/design_'' @ js_string cid @ ''.obj'') (blob_of obf)
       ''model/obj'' True w2 = (r3, w3)"
    "trace w3 = trace w2 @ [Storage_upload ''cad-files'' (''obj/design_'' @ js_string cid @ ''.obj'')
       (blob_of obf) ''model/obj'' True r3]"
    "db w3 = db w2"
    by (rule upload_step)
  show ?thesis
    unfolding upload_and_finalize_def Cad_obj
    using s1 s2 s3
    by (cases r1; cases r2; cases r3; simp add: Let_def get_public_url_def now_iso_def)
qed

lemma upload_and_finalize_general:
  "trace (snd (upload_and_finalize cid cj w)) = trace w @ effects_since w (snd (upload_and_finalize cid cj w))"
  "filter is_failed_update (effects_since w (snd (upload_and_finalize cid cj w))) = []"
  "filter is_http (effects_since w (snd (upload_and_finalize cid cj w))) = []"
  "length (db (snd (upload_and_finalize cid cj w)) cad_conversions k) = length (db w cad_conversions k)"
proof -
  let ?w' = "snd (upload_and_finalize cid cj w)"
  from upload_and_finalize_shape[of cid cj w k] obtain es where
    es: "trace ?w' = trace w @ es" "filter is_failed_update es = []" "filter is_http es = []"
      "length (db ?w' cad_conversions k) = length (db w cad_conversions k)"
    by blast
  have "effects_since w ?w' = es"
    using es(1) by (rule effects_since_eq)
  with es show "trace ?w' = trace w @ effects_since w ?w'"
    "filter is_failed_update (effects_since w ?w') = []"
    "filter is_http (effects_since w ?w') = []"
    "length (db ?w' cad_conversions k) = length (db w cad_conversions k)"
    by simp_all
qed

lemma effects_since_self [simp]: "effects_since w w = []"
  by (simp add: effects_since_def)

lemma effects_since_emit [simp]: "effects_since w (emit e w) = [e]"
  by (simp add: effects_since_def)

lemma call_cad_service_trace:
  "trace (snd (call_cad_service cid rq w)) =
     trace w @ cad_call rq w # effects_since (emit (cad_call rq w) w) (snd (call_cad_service cid rq w))"
  by (simp add: call_cad_service_def fetch_def Let_def case_prod_unfold
        upload_and_finalize_general(1) split: path_splits)

lemma call_cad_service_tail:
  "filter is_http (effects_since (emit (cad_call rq w) w) (snd (call_cad_service cid rq w))) = []"
  "filter is_failed_update (effects_since (emit (cad_call rq w) w) (snd (call_cad_service cid rq w))) = []"
  "length (db (snd (call_cad_service cid rq w)) cad_conversions k) = length (db w cad_conversions k)"
  by (simp_all add: call_cad_service_def fetch_def Let_def case_prod_unfold
        upload_and_finalize_general(2,3,4) split: path_splits)


lemma success_state:
  assumes "req_method req = ''POST''"
    and "req_json req = Json_members cid uid"
    and "fst (query_single cad_conversions (js_string cid) w) = Some job"
    and "truthy (get_prop job ''vectorized_svg_url'')"
    and "fst (query_single metal_specs (js_string cid) w) = Some m"
    and "\<And>url init. cad_service w url init = Resolved resp"
    and "resp_ok resp"
    and "resp_json resp = Inr (Cad_obj sf tf obf)"
    and "upload_fault w (''step/design_'' @ js_string cid @ ''.step'') = None"
    and "upload_fault w (''stl/design_'' @ js_string cid @ ''.stl'') = None"
    and "upload_fault w (''obj/design_'' @ js_string cid @ ''.obj'') = None"
  shows "db (snd (handler req w)) cad_conversions (js_string cid) =
           [job ++ map_of [(''status'', JStr ''generating_cad''), (''current_step'', JNum 3)]
                ++ map_of [(''status'', JStr ''completed''),
              (''current_step'', JNum 4),
              (''cad_file_url'', JStr (public_url w ''cad-files'' (''step/design_'' @ js_string cid @ ''.step''))),
              (''stl_file_url'', JStr (public_url w ''cad-files'' (''stl/design_'' @ js_string cid @ ''.stl''))),
              (''obj_file_url'', JStr (public_url w ''cad-files'' (''obj/design_'' @ js_string cid @ ''.obj''))),
              (''completed_at'', JStr (clock w (length (trace w) + 11)))]]"
    and "db (snd (handler req w)) metal_specs = db w metal_specs"
    and "db (snd (handler req w)) gemstone_specs = db w gemstone_specs"
    and "select_fault (snd (handler req w)) = select_fault w"
    and "upload_fault (snd (handler req w)) = upload_fault w"
    and "public_url (snd (handler req w)) = public_url w"
    and "cad_service (snd (handler req w)) = cad_service w"
    and "CAD_SERVICE_URL (snd (handler req w)) = CAD_SERVICE_URL w"
    and "clock (snd (handler req w)) = clock w"
  using assms query_single_Some[OF assms(3)]
  by (simp_all add: run_simps protected_region_found Suc11)


lemmas scenario_defs =
  world0_def world_of_def post_def job_abc_def job_of_def metal_abc_def cad_ok_def cad_500_def
  query_single_def query_eq_def js_string_def js_of_def get_prop_def








text \<open>The paths of the protected region, one equation for each way it ends before step 6.\<close>

lemma before_call_fields [simp]:
  "trace (before_call key w) = trace w @
     [Db_select_single cad_conversions key,
      Db_update cad_conversions [(''status'', JStr ''generating_cad''), (''current_step'', JNum 3)] key,
      Db_select gemstone_specs key,
      Db_select_single metal_specs key]"
  "db (before_call key w) =
     (db w)(cad_conversions := (db w cad_conversions)
        (key := map (\<lambda>r. r ++ map_of [(''status'', JStr ''generating_cad''), (''current_step'', JNum 3)])
                  (db w cad_conversions key)))"
  "storage (before_call key w) = storage w"
  "select_fault (before_call key w) = select_fault w"
  "upload_fault (before_call key w) = upload_fault w"
  "public_url (before_call key w) = public_url w"
  "cad_service (before_call key w) = cad_service w"
  "CAD_SERVICE_URL (before_call key w) = CAD_SERVICE_URL w"
  "clock (before_call key w) = clock w"
  by (simp_all add: before_call_def)

lemma CAD_URL_before_call [simp]: "CAD_URL (before_call key w) = CAD_URL w"
  by (simp add: CAD_URL_def)

lemma region_no_svg:
  assumes "fst (query_single cad_conversions (js_string cid) w) = Some job"
    and "\<not> truthy (get_prop job ''vectorized_svg_url'')"
  shows "protected_region cid w =
           (Inl (new_Error ''No vector SVG URL on conversion''),
            emit (Db_select_single cad_conversions (js_string cid)) w)"
  using assms by (simp add: protected_region_found)

lemma region_no_metal:
  assumes "fst (query_single cad_conversions (js_string cid) w) = Some job"
    and "truthy (get_prop job ''vectorized_svg_url'')"
    and "fst (query_single metal_specs (js_string cid) w) = None"
  shows "protected_region cid w =
           (Inl (new_Error ''Missing metal specs''), before_call (js_string cid) w)"
  using assms by (simp add: protected_region_found before_call_def Let_def)

lemma region_called:
  assumes "fst (query_single cad_conversions (js_string cid) w) = Some job"
    and "truthy (get_prop job ''vectorized_svg_url'')"
    and "fst (query_single metal_specs (js_string cid) w) = Some m"
  shows "protected_region cid w =
           call_cad_service cid
             (cadReq cid (get_prop job ''vectorized_svg_url'')
                (fst (query_eq gemstone_specs (js_string cid) w)) m)
             (before_call (js_string cid) w)"
  using assms by (simp add: protected_region_found before_call_def Let_def)

lemma call_cad_service_tail_at:
  assumes "CAD_URL w = CAD_URL w0"
  shows "filter is_http (effects_since (emit (cad_call rq w0) w) (snd (call_cad_service cid rq w))) = []"
    and "filter is_failed_update (effects_since (emit (cad_call rq w0) w) (snd (call_cad_service cid rq w))) = []"
  using call_cad_service_tail(1,2)[where rq=rq and w=w and cid=cid] assms by simp_all

lemma region_general:
  "trace (snd (protected_region cid w)) = trace w @ effects_since w (snd (protected_region cid w))"
  "filter is_failed_update (effects_since w (snd (protected_region cid w))) = []"
  "length (db (snd (protected_region cid w)) cad_conversions k) = length (db w cad_conversions k)"
proof -
  let ?w' = "snd (protected_region cid w)"
  have "\<exists>es. trace ?w' = trace w @ es \<and> filter is_failed_update es = []
          \<and> length (db ?w' cad_conversions k) = length (db w cad_conversions k)"
  proof (cases "fst (query_single cad_conversions (js_string cid) w)")
    case None
    then show ?thesis by (simp add: protected_region_not_found)
  next
    case (Some job)
    show ?thesis
    proof (cases "truthy (get_prop job ''vectorized_svg_url'')")
      case False
      with Some show ?thesis by (simp add: region_no_svg)
    next
      case True
      show ?thesis
      proof (cases "fst (query_single metal_specs (js_string cid) w)")
        case None
        with Some True show ?thesis by (simp add: region_no_metal)
      next
        case (Some m)
        with \<open>fst (query_single cad_conversions (js_string cid) w) = Some job\<close> True
        show ?thesis
          by (simp add: region_called call_cad_service_trace call_cad_service_tail(3)
                call_cad_service_tail_at)
      qed
    qed
  qed
  then obtain es where es: "trace ?w' = trace w @ es" "filter is_failed_update es = []"
     "length (db ?w' cad_conversions k) = length (db w cad_conversions k)"
    by blast
  have "effects_since w ?w' = es"
    using es(1) by (rule effects_since_eq)
  with es show "trace ?w' = trace w @ effects_since w ?w'"
    "filter is_failed_update (effects_since w ?w') = []"
    "length (db ?w' cad_conversions k) = length (db w cad_conversions k)"
    by simp_all
qed

text \<open>The handler around the protected region.\<close>

lemma handler_failed:
  assumes "req_method req = ''POST''"
    and "req_json req = Json_members cid uid"
    and "fst (protected_region cid w) = Inl err"
  shows "fst (handler req w) =
           Returned \<lparr>status = 500, headers = CORS @ [(''Content-Type'', ''application/json'')],
                     body = Some (Obj [(''success'', Val (JBool False)),
                                       (''error'', Val (JStr (String_of err)))])\<rparr>"
    and "snd (handler req w) =
           (if truthy (js_of cid)
            then update_eq cad_conversions
                   [(''status'', JStr ''failed''), (''current_step'', JNum 0),
                    (''error_message'', JStr (String_of err))]
                   (js_string cid) (snd (protected_region cid w))
            else snd (protected_region cid w))"
  using assms
  by (cases "protected_region cid w";
      simp add: handler_def catch_block_def failed_patch_def json_headers_def Let_def)+

lemma handler_succeeded:
  assumes "req_method req = ''POST''"
    and "req_json req = Json_members cid uid"
    and "fst (protected_region cid w) = Inr resp"
  shows "handler req w = (Returned resp, snd (protected_region cid w))"
  using assms
  by (cases "protected_region cid w"; simp add: handler_def)

lemma String_of_new_Error [simp]: "String_of (new_Error msg) = (if msg = [] then ''Error'' else ''Error: '' @ msg)"
  by (simp add: String_of_def new_Error_def)

lemma region_cad_not_ok:
  assumes "fst (query_single cad_conversions (js_string cid) w) = Some job"
    and "truthy (get_prop job ''vectorized_svg_url'')"
    and "fst (query_single metal_specs (js_string cid) w) = Some m"
    and "\<And>url init. cad_service w url init = Resolved resp"
    and "\<not> resp_ok resp"
    and "resp_text resp = Inr txt"
  shows "protected_region cid w =
           (Inl (new_Error (''CAD service error: '' @ txt)),
            emit (cad_call (cadReq cid (get_prop job ''vectorized_svg_url'')
                              (fst (query_eq gemstone_specs (js_string cid) w)) m) w)
              (before_call (js_string cid) w))"
  using assms(4-6)
  by (simp add: region_called[OF assms(1-3)] call_cad_service_def fetch_def Let_def)

lemma cadReq_explicit:
  "cadReq cid svgUrl gemSpecs m =
     Obj [(''svg_url'', Val svgUrl),
          (''design_id'', Val (js_of cid)),
          (''gemstone_specs'',
             Arr (map (\<lambda>g. Obj [(''shape'', Val (get_prop g ''shape'')),
                                  (''size_mm'', Number_of (get_prop g ''mm_size'')),
                                  (''dia_wt'', Number_of (get_prop g ''dia_wt'')),
                                  (''quantity'', Val (get_prop g ''quantity'')),
                                  (''setting_type'', Val (get_prop g ''setting_type''))])
                    (case gemSpecs of None \<Rightarrow> [] | Some gs \<Rightarrow> gs))),
          (''metal_specs'',
             Obj [(''type'', Val (get_prop m ''color'')),
                  (''karat'', Val (get_prop m ''karat'')),
                  (''weight_grams'', Number_of (get_prop m ''gold_weight'')),
                  (''tone'', Val (get_prop m ''tone''))])]"
  by (cases gemSpecs) (simp_all add: cadReq_def)

lemma handler_called:
  assumes "req_method req = ''POST''"
    and "req_json req = Json_members cid uid"
    and "fst (query_single cad_conversions (js_string cid) w) = Some job"
    and "truthy (get_prop job ''vectorized_svg_url'')"
    and "fst (query_single metal_specs (js_string cid) w) = Some m"
  shows "\<exists>tail. effects_since w (snd (handler req w)) =
           [Db_select_single cad_conversions (js_string cid),
            Db_update cad_conversions
              [(''status'', JStr ''generating_cad''), (''current_step'', JNum 3)] (js_string cid),
            Db_select gemstone_specs (js_string cid),
            Db_select_single metal_specs (js_string cid),
            cad_call (cadReq cid (get_prop job ''vectorized_svg_url'')
                        (fst (query_eq gemstone_specs (js_string cid) w)) m) w] @ tail
         \<and> filter is_http tail = []"
proof -
  let ?rq = "cadReq cid (get_prop job ''vectorized_svg_url'')
               (fst (query_eq gemstone_specs (js_string cid) w)) m"
  let ?w4 = "before_call (js_string cid) w"
  let ?w1 = "snd (protected_region cid w)"
  let ?T = "effects_since (emit (cad_call ?rq w) ?w4) ?w1"
  have r: "protected_region cid w = call_cad_service cid ?rq ?w4"
    by (rule region_called[OF assms(3-5)])
  have t1: "trace ?w1 = trace ?w4 @ cad_call ?rq w # ?T"
    unfolding r using call_cad_service_trace[of cid ?rq ?w4] by simp
  have hT: "filter is_http ?T = []"
    unfolding r by (rule call_cad_service_tail_at(1)) simp
  show ?thesis
  proof (cases "fst (protected_region cid w)")
    case (Inr resp)
    have "snd (handler req w) = ?w1"
      using handler_succeeded[OF assms(1,2) Inr] by simp
    then have "effects_since w (snd (handler req w)) =
           [Db_select_single cad_conversions (js_string cid),
            Db_update cad_conversions
              [(''status'', JStr ''generating_cad''), (''current_step'', JNum 3)] (js_string cid),
            Db_select gemstone_specs (js_string cid),
            Db_select_single metal_specs (js_string cid),
            cad_call ?rq w] @ ?T"
      by (intro effects_since_eq) (simp add: t1)
    with hT show ?thesis by blast
  next
    case (Inl err)
    note hf = handler_failed[OF assms(1,2) Inl]
    let ?u = "if truthy (js_of cid)
              then [Db_update cad_conversions
                      [(''status'', JStr ''failed''), (''current_step'', JNum 0),
                       (''error_message'', JStr (String_of err))] (js_string cid)]
              else []"
    have "effects_since w (snd (handler req w)) =
           [Db_select_single cad_conversions (js_string cid),
            Db_update cad_conversions
              [(''status'', JStr ''generating_cad''), (''current_step'', JNum 3)] (js_string cid),
            Db_select gemstone_specs (js_string cid),
            Db_select_single metal_specs (js_string cid),
            cad_call ?rq w] @ (?T @ ?u)"
      by (intro effects_since_eq) (simp add: hf(2) t1)
    moreover have "filter is_http (?T @ ?u) = []"
      using hT by simp
    ultimately show ?thesis by blast
  qed
qed

lemma region_cad_rejected:
  assumes "fst (query_single cad_conversions (js_string cid) w) = Some job"
    and "truthy (get_prop job ''vectorized_svg_url'')"
    and "fst (query_single metal_specs (js_string cid) w) = Some m"
    and "cad_service w (CAD_URL w @ ''/convert'')
           \<lparr>fetch_method = ''POST'', fetch_headers = [(''Content-Type'', ''application/json'')],
            fetch_body = cadReq cid (get_prop job ''vectorized_svg_url'')
                           (fst (query_eq gemstone_specs (js_string cid) w)) m,
            fetch_timeout_ms = 300000\<rparr> = Rejected err"
  shows "protected_region cid w =
           (Inl err,
            emit (cad_call (cadReq cid (get_prop job ''vectorized_svg_url'')
                              (fst (query_eq gemstone_specs (js_string cid) w)) m) w)
              (before_call (js_string cid) w))"
  using assms(4)
  by (simp add: region_called[OF assms(1-3)] call_cad_service_def fetch_def Let_def)

text \<open>
  A run contains a call of the CAD service exactly when the job is found, has a vector
  URL and the metal lookup returns its row: these three conditions are what
  ``the run reaches the external call'' means below.
\<close>

lemma http_call_iff:
  assumes "req_method req = ''POST''"
    and "req_json req = Json_members cid uid"
  shows "filter is_http (effects_since w (snd (handler req w))) \<noteq> [] \<longleftrightarrow>
           (\<exists>job m. fst (query_single cad_conversions (js_string cid) w) = Some job
                    \<and> truthy (get_prop job ''vectorized_svg_url'')
                    \<and> fst (query_single metal_specs (js_string cid) w) = Some m)"
proof
  assume "\<exists>job m. fst (query_single cad_conversions (js_string cid) w) = Some job
                    \<and> truthy (get_prop job ''vectorized_svg_url'')
                    \<and> fst (query_single metal_specs (js_string cid) w) = Some m"
  then obtain job m where "fst (query_single cad_conversions (js_string cid) w) = Some job"
     "truthy (get_prop job ''vectorized_svg_url'')"
     "fst (query_single metal_specs (js_string cid) w) = Some m"
    by blast
  from handler_called[OF assms this] show "filter is_http (effects_since w (snd (handler req w))) \<noteq> []"
    by auto
next
  assume h: "filter is_http (effects_since w (snd (handler req w))) \<noteq> []"
  have aborted: "filter is_http (effects_since w (snd (handler req w))) = []"
    if r: "protected_region cid w = (Inl err, w1)" and t: "trace w1 = trace w @ es"
      and n: "filter is_http es = []" for err w1 es
  proof -
    have r1: "fst (protected_region cid w) = Inl err"
      using r by simp
    note hf = handler_failed[OF assms r1]
    have "effects_since w (snd (handler req w)) =
            es @ (if truthy (js_of cid)
                  then [Db_update cad_conversions
                          [(''status'', JStr ''failed''), (''current_step'', JNum 0),
                           (''error_message'', JStr (String_of err))] (js_string cid)]
                  else [])"
      by (rule effects_since_eq) (simp add: hf(2) r t)
    then show ?thesis
      using n by simp
  qed
  show "\<exists>job m. fst (query_single cad_conversions (js_string cid) w) = Some job
                    \<and> truthy (get_prop job ''vectorized_svg_url'')
                    \<and> fst (query_single metal_specs (js_string cid) w) = Some m"
  proof (cases "fst (query_single cad_conversions (js_string cid) w)")
    case None
    from aborted[OF protected_region_not_found[OF None]] h show ?thesis by simp
  next
    case (Some job)
    show ?thesis
    proof (cases "truthy (get_prop job ''vectorized_svg_url'')")
      case False
      from aborted[OF region_no_svg[OF Some False]] h show ?thesis by simp
    next
      case True
      show ?thesis
      proof (cases "fst (query_single metal_specs (js_string cid) w)")
        case None
        from aborted[OF region_no_metal[OF Some True None]] h show ?thesis by simp
      next
        case (Some m)
        with \<open>fst (query_single cad_conversions (js_string cid) w) = Some job\<close> True
        show ?thesis by blast
      qed
    qed
  qed
qed

subsection \<open>Successful conversion\<close>

text \<open>
  C1. Let a POST request carry a \<open>conversionId\<close> whose lookup returns a job with a truthy
  \<open>vectorized_svg_url\<close>, let the metal lookup return its single row, let the CAD service
  answer with success and a body carrying the three file payloads, let the three uploads
  be accepted and the three public URLs be non-empty. Then the handler answers 200 with
  the body \<^verbatim>\<open>{success: true, conversionId}\<close>; its last call is the update of the job
  to \<open>completed\<close>, step 4, with the three URLs and the timestamp; afterwards the job row
  has status \<open>completed\<close>, the three URL columns are populated and \<open>completed_at\<close>
  is set.
\<close>

theorem conversion_completes:
  assumes "req_method req = ''POST''"
    and "req_json req = Json_members cid uid"
    and "fst (query_single cad_conversions (js_string cid) w) = Some job"
    and "truthy (get_prop job ''vectorized_svg_url'')"
    and "fst (query_single metal_specs (js_string cid) w) = Some m"
    and "\<And>url init. cad_service w url init = Resolved resp"
    and "resp_ok resp"
    and "resp_json resp = Inr (Cad_obj (Some a) (Some b) (Some c))"
    and "upload_fault w (''step/design_'' @ js_string cid @ ''.step'') = None"
    and "upload_fault w (''stl/design_'' @ js_string cid @ ''.stl'') = None"
    and "upload_fault w (''obj/design_'' @ js_string cid @ ''.obj'') = None"
    and "public_url w ''cad-files'' (''step/design_'' @ js_string cid @ ''.step'') \<noteq> []"
    and "public_url w ''cad-files'' (''stl/design_'' @ js_string cid @ ''.stl'') \<noteq> []"
    and "public_url w ''cad-files'' (''obj/design_'' @ js_string cid @ ''.obj'') \<noteq> []"
  shows "fst (handler req w) =
           Returned \<lparr>status = 200, headers = CORS,
                     body = Some (Obj [(''success'', Val (JBool True)),
                                       (''conversionId'', Val (js_of cid))])\<rparr>
       \<and> last (trace (snd (handler req w))) =
           Db_update cad_conversions
             [(''status'', JStr ''completed''),
              (''current_step'', JNum 4),
              (''cad_file_url'', JStr (public_url w ''cad-files'' (''step/design_'' @ js_string cid @ ''.step''))),
              (''stl_file_url'', JStr (public_url w ''cad-files'' (''stl/design_'' @ js_string cid @ ''.stl''))),
              (''obj_file_url'', JStr (public_url w ''cad-files'' (''obj/design_'' @ js_string cid @ ''.obj''))),
              (''completed_at'', JStr (clock w (length (trace w) + 11)))]
             (js_string cid)
       \<and> statuses (snd (handler req w)) (js_string cid) = [JStr ''completed'']
       \<and> map truthy (column (snd (handler req w)) (js_string cid) ''cad_file_url'') = [True]
       \<and> map truthy (column (snd (handler req w)) (js_string cid) ''stl_file_url'') = [True]
       \<and> map truthy (column (snd (handler req w)) (js_string cid) ''obj_file_url'') = [True]
       \<and> column (snd (handler req w)) (js_string cid) ''completed_at'' =
             [JStr (clock w (length (trace w) + 11))]"
proof -
  note hyps = assms(1-8)
  have r: "fst (handler req w) =
           Returned \<lparr>status = 200, headers = CORS,
                     body = Some (Obj [(''success'', Val (JBool True)),
                                       (''conversionId'', Val (js_of cid))])\<rparr>"
    by (rule success_run(1)[OF hyps assms(9-11)])
  have t: "last (trace (snd (handler req w))) =
           Db_update cad_conversions
             [(''status'', JStr ''completed''),
              (''current_step'', JNum 4),
              (''cad_file_url'', JStr (public_url w ''cad-files'' (''step/design_'' @ js_string cid @ ''.step''))),
              (''stl_file_url'', JStr (public_url w ''cad-files'' (''stl/design_'' @ js_string cid @ ''.stl''))),
              (''obj_file_url'', JStr (public_url w ''cad-files'' (''obj/design_'' @ js_string cid @ ''.obj''))),
              (''completed_at'', JStr (clock w (length (trace w) + 11)))]
             (js_string cid)"
    by (simp add: success_run(2)[OF hyps assms(9-11)])
  have d: "statuses (snd (handler req w)) (js_string cid) = [JStr ''completed'']"
     "map truthy (column (snd (handler req w)) (js_string cid) ''cad_file_url'') = [True]"
     "map truthy (column (snd (handler req w)) (js_string cid) ''stl_file_url'') = [True]"
     "map truthy (column (snd (handler req w)) (js_string cid) ''obj_file_url'') = [True]"
     "column (snd (handler req w)) (js_string cid) ''completed_at'' =
             [JStr (clock w (length (trace w) + 11))]"
    using assms(12-14)
    by (simp_all add: statuses_def column_def get_prop_def success_state(1)[OF hyps assms(9-11)])
  show ?thesis
    using r t d by simp
qed

theorem conversion_completes_witness:
  "req_method (post (Some ''abc123'') (Some ''u1'')) = ''POST''
   \<and> req_json (post (Some ''abc123'') (Some ''u1'')) = Json_members (Some ''abc123'') (Some ''u1'')
   \<and> fst (query_single cad_conversions ''abc123'' world0) = Some job_abc
   \<and> truthy (get_prop job_abc ''vectorized_svg_url'')
   \<and> fst (query_single metal_specs ''abc123'' world0) = Some metal_abc
   \<and> (\<forall>url init. cad_service world0 url init = Resolved cad_ok)
   \<and> resp_ok cad_ok
   \<and> resp_json cad_ok = Inr (Cad_obj (Some ''STEP'') (Some ''STL'') (Some ''OBJ''))
   \<and> upload_fault world0 ''step/design_abc123.step'' = None
   \<and> upload_fault world0 ''stl/design_abc123.stl'' = None
   \<and> upload_fault world0 ''obj/design_abc123.obj'' = None
   \<and> public_url world0 ''cad-files'' ''step/design_abc123.step'' \<noteq> []
   \<and> public_url world0 ''cad-files'' ''stl/design_abc123.stl'' \<noteq> []
   \<and> public_url world0 ''cad-files'' ''obj/design_abc123.obj'' \<noteq> []
   \<and> fst (handler (post (Some ''abc123'') (Some ''u1'')) world0) =
         Returned \<lparr>status = 200, headers = CORS,
                   body = Some (Obj [(''success'', Val (JBool True)),
                                     (''conversionId'', Val (JStr ''abc123''))])\<rparr>
   \<and> statuses (snd (handler (post (Some ''abc123'') (Some ''u1'')) world0)) ''abc123'' =
         [JStr ''completed'']
   \<and> column (snd (handler (post (Some ''abc123'') (Some ''u1'')) world0)) ''abc123'' ''completed_at'' =
         [JStr ''2024-01-01T00:00:00.000Z'']"
  using conversion_completes [of "post (Some ''abc123'') (Some ''u1'')" "Some ''abc123''" "Some ''u1''"
          world0 job_abc metal_abc cad_ok "''STEP''" "''STL''" "''OBJ''"]
  by (simp add: scenario_defs)

subsection \<open>The catch block\<close>

text \<open>
  C2. Let the protected region of a POST request raise \<open>err\<close>, at whatever step, and
  let the job id be known, that is, let \<open>conversionId\<close> pass the guard
  \<^verbatim>\<open>if (conversionId)\<close> of the catch block. Then the handler answers 500 with the
  body \<^verbatim>\<open>{success: false, error: String(err)}\<close>. The calls of the run are those of the
  protected region followed by one update of the job that sets \<open>status\<close> to
  \<open>failed\<close>, \<open>current_step\<close> to 0 and \<open>error_message\<close> to \<^verbatim>\<open>String(err)\<close>; it is
  the only update of the run that sets the status \<open>failed\<close>. Afterwards every job row
  with this id has the status \<open>failed\<close> and that error message.
\<close>

theorem failure_contract:
  assumes "req_method req = ''POST''"
    and "req_json req = Json_members cid uid"
    and "fst (protected_region cid w) = Inl err"
    and "truthy (js_of cid)"
  shows "fst (handler req w) =
           Returned \<lparr>status = 500, headers = CORS @ [(''Content-Type'', ''application/json'')],
                     body = Some (Obj [(''success'', Val (JBool False)),
                                       (''error'', Val (JStr (String_of err)))])\<rparr>
       \<and> effects_since w (snd (handler req w)) =
           effects_since w (snd (protected_region cid w)) @
           [Db_update cad_conversions
              [(''status'', JStr ''failed''), (''current_step'', JNum 0),
               (''error_message'', JStr (String_of err))]
              (js_string cid)]
       \<and> filter is_failed_update (effects_since w (snd (handler req w))) =
           [Db_update cad_conversions
              [(''status'', JStr ''failed''), (''current_step'', JNum 0),
               (''error_message'', JStr (String_of err))]
              (js_string cid)]
       \<and> statuses (snd (handler req w)) (js_string cid) =
           replicate (length (db w cad_conversions (js_string cid))) (JStr ''failed'')
       \<and> column (snd (handler req w)) (js_string cid) ''error_message'' =
           replicate (length (db w cad_conversions (js_string cid))) (JStr (String_of err))"
proof -
  let ?w1 = "snd (protected_region cid w)"
  let ?u = "Db_update cad_conversions
              [(''status'', JStr ''failed''), (''current_step'', JNum 0),
               (''error_message'', JStr (String_of err))]
              (js_string cid)"
  note h = handler_failed[OF assms(1-3)]
  have w': "snd (handler req w) =
              update_eq cad_conversions
                   [(''status'', JStr ''failed''), (''current_step'', JNum 0),
                    (''error_message'', JStr (String_of err))]
                   (js_string cid) ?w1"
    using h(2) assms(4) by simp
  have "trace (snd (handler req w)) = trace w @ (effects_since w ?w1 @ [?u])"
    unfolding w' using region_general(1)[of cid w] by simp
  then have e: "effects_since w (snd (handler req w)) = effects_since w ?w1 @ [?u]"
    by (rule effects_since_eq)
  have f: "filter is_failed_update (effects_since w (snd (handler req w))) = [?u]"
    unfolding e by (simp add: region_general(2))
  have len: "length (db ?w1 cad_conversions (js_string cid)) = length (db w cad_conversions (js_string cid))"
    by (rule region_general(3))
  have s: "statuses (snd (handler req w)) (js_string cid) =
           replicate (length (db w cad_conversions (js_string cid))) (JStr ''failed'')"
    unfolding w' len[symmetric]
    by (simp add: statuses_def get_prop_def comp_def map_replicate_const)
  have c: "column (snd (handler req w)) (js_string cid) ''error_message'' =
           replicate (length (db w cad_conversions (js_string cid))) (JStr (String_of err))"
    unfolding w' len[symmetric]
    by (simp add: column_def get_prop_def comp_def map_replicate_const)
  show ?thesis
    using h(1) e f s c by simp
qed

theorem failure_contract_witness:
  "(req_method (post (Some ''abc123'') (Some ''u1'')) = ''POST''
   \<and> req_json (post (Some ''abc123'') (Some ''u1'')) = Json_members (Some ''abc123'') (Some ''u1'')
   \<and> fst (protected_region (Some ''abc123'') (world_of ''abc123'' [] cad_ok)) =
       Inl (new_Error ''Missing metal specs'')
   \<and> truthy (js_of (Some ''abc123''))
   \<and> fst (handler (post (Some ''abc123'') (Some ''u1'')) (world_of ''abc123'' [] cad_ok)) =
       Returned \<lparr>status = 500, headers = CORS @ [(''Content-Type'', ''application/json'')],
                 body = Some (Obj [(''success'', Val (JBool False)),
                                   (''error'', Val (JStr ''Error: Missing metal specs''))])\<rparr>
   \<and> filter is_failed_update
        (effects_since (world_of ''abc123'' [] cad_ok)
           (snd (handler (post (Some ''abc123'') (Some ''u1'')) (world_of ''abc123'' [] cad_ok)))) =
       [Db_update cad_conversions
          [(''status'', JStr ''failed''), (''current_step'', JNum 0),
           (''error_message'', JStr ''Error: Missing metal specs'')]
          ''abc123'']
   \<and> statuses (snd (handler (post (Some ''abc123'') (Some ''u1'')) (world_of ''abc123'' [] cad_ok)))
         ''abc123'' = [JStr ''failed''])
   \<and> (fst (protected_region (Some ''abc123'') world_upload_broken) =
       Inl (Js_error ''TypeError'' ''fetch failed'')
   \<and> fst (handler (post (Some ''abc123'') (Some ''u1'')) world_upload_broken) =
       Returned \<lparr>status = 500, headers = CORS @ [(''Content-Type'', ''application/json'')],
                 body = Some (Obj [(''success'', Val (JBool False)),
                                   (''error'', Val (JStr ''TypeError: fetch failed''))])\<rparr>
   \<and> filter is_upload
        (effects_since world_upload_broken
           (snd (handler (post (Some ''abc123'') (Some ''u1'')) world_upload_broken))) =
       [Storage_upload ''cad-files'' ''step/design_abc123.step'' ''STEP'' ''model/step'' True (Inr None),
        Storage_upload ''cad-files'' ''stl/design_abc123.stl'' ''STL'' ''model/stl'' True
          (Inl (Js_error ''TypeError'' ''fetch failed''))]
   \<and> filter is_failed_update
        (effects_since world_upload_broken
           (snd (handler (post (Some ''abc123'') (Some ''u1'')) world_upload_broken))) =
       [Db_update cad_conversions
          [(''status'', JStr ''failed''), (''current_step'', JNum 0),
           (''error_message'', JStr ''TypeError: fetch failed'')]
          ''abc123'']
   \<and> statuses (snd (handler (post (Some ''abc123'') (Some ''u1'')) world_upload_broken))
         ''abc123'' = [JStr ''failed''])"
  (is "?missing_metal \<and> ?broken_upload")
proof -
  have missing_metal: ?missing_metal
  proof -
    let ?w = "world_of ''abc123'' [] cad_ok"
    have h1: "req_method (post (Some ''abc123'') (Some ''u1'')) = ''POST''"
      and h2: "req_json (post (Some ''abc123'') (Some ''u1'')) = Json_members (Some ''abc123'') (Some ''u1'')"
      by (simp_all add: post_def)
    have h3: "fst (protected_region (Some ''abc123'') ?w) = Inl (new_Error ''Missing metal specs'')"
      by (subst region_no_metal[where job = "job_of ''abc123''"]) (simp_all add: scenario_defs)
    have h4: "truthy (js_of (Some ''abc123''))"
      by (simp add: js_of_def)
    have d: "db ?w cad_conversions ''abc123'' = [job_of ''abc123'']"
      by (simp add: world_of_def)
    show ?thesis
      using failure_contract [OF h1 h2 h3 h4] h1 h2 h3 h4 d
      by (simp add: String_of_def new_Error_def js_string_def region_general(2))
  qed
  have broken_upload: ?broken_upload
  proof -
    let ?w = "world_upload_broken"
    let ?err = "Js_error ''TypeError'' ''fetch failed''"
    have h1: "req_method (post (Some ''abc123'') (Some ''u1'')) = ''POST''"
      and h2: "req_json (post (Some ''abc123'') (Some ''u1'')) = Json_members (Some ''abc123'') (Some ''u1'')"
      by (simp_all add: post_def)
    have q: "fst (query_single cad_conversions (js_string (Some ''abc123'')) ?w) = Some job_abc"
      and m: "fst (query_single metal_specs (js_string (Some ''abc123'')) ?w) = Some metal_abc"
      and c: "\<And>url init. cad_service ?w url init = Resolved cad_ok"
      and f: "upload_fault ?w ''step/design_abc123.step'' = None"
         "upload_fault ?w ''stl/design_abc123.stl'' = Some (Broken ?err)"
      and d: "db ?w cad_conversions ''abc123'' = [job_of ''abc123'']"
      by (simp_all add: world_upload_broken_def world0_def world_of_def query_single_def
            js_string_def job_abc_def)
    have t: "truthy (get_prop job_abc ''vectorized_svg_url'')"
      by (simp add: job_abc_def job_of_def get_prop_def)
    have k: "resp_ok cad_ok" "resp_json cad_ok = Inr (Cad_obj (Some ''STEP'') (Some ''STL'') (Some ''OBJ''))"
      by (simp_all add: cad_ok_def)
    have r: "fst (protected_region (Some ''abc123'') ?w) = Inl ?err"
      using c k f
      by (simp add: region_called[OF q t m] call_cad_service_def fetch_def upload_and_finalize_def
            Let_def case_prod_unfold storage_upload_upsert js_string_def)
    have u: "filter is_upload (effects_since ?w (snd (protected_region (Some ''abc123'') ?w))) =
         [Storage_upload ''cad-files'' ''step/design_abc123.step'' ''STEP'' ''model/step'' True (Inr None),
          Storage_upload ''cad-files'' ''stl/design_abc123.stl'' ''STL'' ''model/stl'' True (Inl ?err)]"
      using c k f
      by (simp add: region_called[OF q t m] call_cad_service_def fetch_def upload_and_finalize_def
            Let_def case_prod_unfold storage_upload_upsert js_string_def blob_of_def effects_since_def)
    have h4: "truthy (js_of (Some ''abc123''))"
      by (simp add: js_of_def)
    show ?thesis
      using failure_contract [OF h1 h2 r h4] r u d
      by (simp add: String_of_def js_string_def region_general(2))
  qed
  show ?thesis
    using missing_metal broken_upload by (rule conjI)
qed

subsection \<open>Missing metal specification\<close>

text \<open>
  C3, as amended. Let the metal lookup of a POST request return no row. Then the handler
  answers 500 and its run contains neither a call of the CAD service nor an upload.
  When \<open>conversionId\<close> is truthy (a non-empty string), the run contains exactly one
  failed-update, which is its last call, and every job row with this id has the status
  \<open>failed\<close> afterwards; when it is falsy, the run contains no failed-update. When the
  job exists and has a vector URL, the error reported is
  \<^verbatim>\<open>Error: Missing metal specs\<close>.
\<close>

theorem missing_metal_aborts:
  assumes "req_method req = ''POST''"
    and "req_json req = Json_members cid uid"
    and "fst (query_single metal_specs (js_string cid) w) = None"
  shows "returned_status (fst (handler req w)) = Some 500
       \<and> filter is_http (effects_since w (snd (handler req w))) = []
       \<and> filter is_upload (effects_since w (snd (handler req w))) = []
       \<and> (truthy (js_of cid) \<longrightarrow>
            length (filter is_failed_update (effects_since w (snd (handler req w)))) = 1
            \<and> is_failed_update (last (trace (snd (handler req w))))
            \<and> statuses (snd (handler req w)) (js_string cid) =
                replicate (length (db w cad_conversions (js_string cid))) (JStr ''failed''))
       \<and> (\<not> truthy (js_of cid) \<longrightarrow>
            filter is_failed_update (effects_since w (snd (handler req w))) = [])
       \<and> (fst (query_single cad_conversions (js_string cid) w) = Some job
            \<and> truthy (get_prop job ''vectorized_svg_url'') \<longrightarrow>
            fst (handler req w) =
              Returned \<lparr>status = 500, headers = CORS @ [(''Content-Type'', ''application/json'')],
                        body = Some (Obj [(''success'', Val (JBool False)),
                                          (''error'', Val (JStr ''Error: Missing metal specs''))])\<rparr>)"
proof -
  let ?w1 = "snd (protected_region cid w)"
  let ?w' = "snd (handler req w)"
  have "\<exists>err es. fst (protected_region cid w) = Inl err \<and> trace ?w1 = trace w @ es
          \<and> filter is_http es = [] \<and> filter is_upload es = []
          \<and> (\<forall>job. fst (query_single cad_conversions (js_string cid) w) = Some job
                \<and> truthy (get_prop job ''vectorized_svg_url'') \<longrightarrow> err = new_Error ''Missing metal specs'')"
  proof (cases "fst (query_single cad_conversions (js_string cid) w)")
    case None
    then show ?thesis by (simp add: protected_region_not_found)
  next
    case (Some j)
    show ?thesis
    proof (cases "truthy (get_prop j ''vectorized_svg_url'')")
      case False
      with Some show ?thesis by (simp add: region_no_svg)
    next
      case True
      with Some assms(3) show ?thesis by (simp add: region_no_metal)
    qed
  qed
  then obtain err es where r: "fst (protected_region cid w) = Inl err"
    and t1: "trace ?w1 = trace w @ es"
    and h: "filter is_http es = []" and u: "filter is_upload es = []"
    and m: "\<And>job. fst (query_single cad_conversions (js_string cid) w) = Some job
                \<Longrightarrow> truthy (get_prop job ''vectorized_svg_url'') \<Longrightarrow> err = new_Error ''Missing metal specs''"
    by blast
  note hf = handler_failed[OF assms(1,2) r]
  have es: "effects_since w ?w1 = es"
    using t1 by (rule effects_since_eq)
  have nf: "filter is_failed_update es = []"
    using region_general(2)[of w cid] es by simp
  have len: "length (db ?w1 cad_conversions (js_string cid)) = length (db w cad_conversions (js_string cid))"
    by (rule region_general(3))
  have e': "effects_since w ?w' =
              es @ (if truthy (js_of cid)
                    then [Db_update cad_conversions
                            [(''status'', JStr ''failed''), (''current_step'', JNum 0),
                             (''error_message'', JStr (String_of err))] (js_string cid)]
                    else [])"
    by (rule effects_since_eq) (simp add: hf(2) t1)
  have st: "truthy (js_of cid) \<Longrightarrow> statuses ?w' (js_string cid) =
                replicate (length (db w cad_conversions (js_string cid))) (JStr ''failed'')"
    unfolding len[symmetric]
    by (simp add: hf(2) statuses_def get_prop_def comp_def map_replicate_const)
  have la: "truthy (js_of cid) \<Longrightarrow> is_failed_update (last (trace ?w'))"
    by (simp add: hf(2))
  show ?thesis
    using hf(1) e' h u nf st la m by auto
qed

theorem missing_metal_aborts_witness:
  "req_method (post (Some ''abc123'') (Some ''u1'')) = ''POST''
   \<and> req_json (post (Some ''abc123'') (Some ''u1'')) = Json_members (Some ''abc123'') (Some ''u1'')
   \<and> fst (query_single metal_specs ''abc123'' (world_of ''abc123'' [] cad_ok)) = None
   \<and> truthy (js_of (Some ''abc123''))
   \<and> fst (query_single cad_conversions ''abc123'' (world_of ''abc123'' [] cad_ok)) = Some (job_of ''abc123'')
   \<and> truthy (get_prop (job_of ''abc123'') ''vectorized_svg_url'')
   \<and> filter is_http
        (effects_since (world_of ''abc123'' [] cad_ok)
           (snd (handler (post (Some ''abc123'') (Some ''u1'')) (world_of ''abc123'' [] cad_ok)))) = []
   \<and> filter is_upload
        (effects_since (world_of ''abc123'' [] cad_ok)
           (snd (handler (post (Some ''abc123'') (Some ''u1'')) (world_of ''abc123'' [] cad_ok)))) = []
   \<and> statuses (snd (handler (post (Some ''abc123'') (Some ''u1'')) (world_of ''abc123'' [] cad_ok)))
         ''abc123'' = [JStr ''failed'']
   \<and> fst (handler (post (Some ''abc123'') (Some ''u1'')) (world_of ''abc123'' [] cad_ok)) =
         Returned \<lparr>status = 500, headers = CORS @ [(''Content-Type'', ''application/json'')],
                   body = Some (Obj [(''success'', Val (JBool False)),
                                     (''error'', Val (JStr ''Error: Missing metal specs''))])\<rparr>"
proof -
  let ?w = "world_of ''abc123'' [] cad_ok"
  have h1: "req_method (post (Some ''abc123'') (Some ''u1'')) = ''POST''"
    and h2: "req_json (post (Some ''abc123'') (Some ''u1'')) = Json_members (Some ''abc123'') (Some ''u1'')"
    by (simp_all add: post_def)
  have h3: "fst (query_single metal_specs (js_string (Some ''abc123'')) ?w) = None"
    and q: "fst (query_single cad_conversions (js_string (Some ''abc123'')) ?w) = Some (job_of ''abc123'')"
    and d: "db ?w cad_conversions ''abc123'' = [job_of ''abc123'']"
    by (simp_all add: world_of_def query_single_def js_string_def)
  have t: "truthy (js_of (Some ''abc123''))" "truthy (get_prop (job_of ''abc123'') ''vectorized_svg_url'')"
    by (simp_all add: js_of_def job_of_def get_prop_def)
  show ?thesis
    using missing_metal_aborts [OF h1 h2 h3, of "job_of ''abc123''"] h1 h2 h3 q d t
    by (simp add: js_string_def)
qed

text \<open>
  C3 as stated fails for the empty conversion id. The job with id \<^verbatim>\<open>""\<close> exists
  and has a vector URL, no metal specification exists; the handler answers 500, issues no
  failed-update, and the job is left in \<open>generating_cad\<close>: the guard
  \<^verbatim>\<open>if (conversionId)\<close> of the catch block skips the write.
\<close>

theorem missing_metal_empty_id_counterexample:
  "req_method (post (Some []) (Some ''u1'')) = ''POST''
   \<and> req_json (post (Some []) (Some ''u1'')) = Json_members (Some []) (Some ''u1'')
   \<and> db (world_of [] [] cad_ok) cad_conversions [] = [job_of []]
   \<and> fst (query_single metal_specs [] (world_of [] [] cad_ok)) = None
   \<and> fst (handler (post (Some []) (Some ''u1'')) (world_of [] [] cad_ok)) =
         Returned \<lparr>status = 500, headers = CORS @ [(''Content-Type'', ''application/json'')],
                   body = Some (Obj [(''success'', Val (JBool False)),
                                     (''error'', Val (JStr ''Error: Missing metal specs''))])\<rparr>
   \<and> filter is_failed_update
        (effects_since (world_of [] [] cad_ok)
           (snd (handler (post (Some []) (Some ''u1'')) (world_of [] [] cad_ok)))) = []
   \<and> statuses (snd (handler (post (Some []) (Some ''u1'')) (world_of [] [] cad_ok))) [] =
         [JStr ''generating_cad'']
   \<and> statuses (snd (handler (post (Some []) (Some ''u1'')) (world_of [] [] cad_ok))) [] \<noteq>
         [JStr ''failed'']"
proof -
  let ?w = "world_of [] [] cad_ok"
  have h1: "req_method (post (Some []) (Some ''u1'')) = ''POST''"
    and h2: "req_json (post (Some []) (Some ''u1'')) = Json_members (Some []) (Some ''u1'')"
    by (simp_all add: post_def)
  have q: "fst (query_single cad_conversions (js_string (Some [])) ?w) = Some (job_of [])"
    and m: "fst (query_single metal_specs (js_string (Some [])) ?w) = None"
    and d: "db ?w cad_conversions [] = [job_of []]"
    by (simp_all add: world_of_def query_single_def js_string_def)
  have t: "truthy (get_prop (job_of []) ''vectorized_svg_url'')"
    by (simp add: job_of_def get_prop_def)
  have r: "protected_region (Some []) ?w =
             (Inl (new_Error ''Missing metal specs''), before_call (js_string (Some [])) ?w)"
    by (rule region_no_metal[OF q t m])
  have f: "\<not> truthy (js_of (Some []))"
    by (simp add: js_of_def)
  note hf = handler_failed[OF h1 h2, of ?w "new_Error ''Missing metal specs''"]
  have w': "snd (handler (post (Some []) (Some ''u1'')) ?w) = before_call [] ?w"
    using hf(2) f by (simp add: r js_string_def)
  have e: "effects_since ?w (before_call [] ?w) =
             [Db_select_single cad_conversions [],
              Db_update cad_conversions
                [(''status'', JStr ''generating_cad''), (''current_step'', JNum 3)] [],
              Db_select gemstone_specs [],
              Db_select_single metal_specs []]"
    by (rule effects_since_eq) simp
  have s: "statuses (before_call [] ?w) [] = [JStr ''generating_cad'']"
    by (simp add: statuses_def d get_prop_def)
  show ?thesis
    using h1 h2 d m hf(1) by (simp add: w' e s r js_string_def)
qed

subsection \<open>Error answer of the CAD service\<close>

text \<open>
  C4, as amended. Let the run of a POST request reach the CAD service, and let the
  service answer with a status outside 2xx and the body text \<open>txt\<close>. Then the handler
  answers 500 with the error \<^verbatim>\<open>Error: CAD service error: <txt>\<close> and its run contains
  no upload. When \<open>conversionId\<close> is truthy (a non-empty string), the last call of the
  run is the failed-update, and afterwards the job has the status \<open>failed\<close> and the
  error message \<^verbatim>\<open>Error: CAD service error: <txt>\<close>. When it is falsy, no
  failed-update is issued and the job stays in \<open>generating_cad\<close>.
\<close>

theorem cad_error_fails:
  assumes "req_method req = ''POST''"
    and "req_json req = Json_members cid uid"
    and "fst (query_single cad_conversions (js_string cid) w) = Some job"
    and "truthy (get_prop job ''vectorized_svg_url'')"
    and "fst (query_single metal_specs (js_string cid) w) = Some m"
    and "\<And>url init. cad_service w url init = Resolved resp"
    and "\<not> resp_ok resp"
    and "resp_text resp = Inr txt"
  shows "fst (handler req w) =
           Returned \<lparr>status = 500, headers = CORS @ [(''Content-Type'', ''application/json'')],
                     body = Some (Obj [(''success'', Val (JBool False)),
                                       (''error'', Val (JStr (''Error: CAD service error: '' @ txt)))])\<rparr>
       \<and> filter is_upload (effects_since w (snd (handler req w))) = []
       \<and> (truthy (js_of cid) \<longrightarrow>
             last (trace (snd (handler req w))) =
               Db_update cad_conversions
                 [(''status'', JStr ''failed''), (''current_step'', JNum 0),
                  (''error_message'', JStr (''Error: CAD service error: '' @ txt))]
                 (js_string cid)
             \<and> statuses (snd (handler req w)) (js_string cid) = [JStr ''failed'']
             \<and> column (snd (handler req w)) (js_string cid) ''error_message'' =
                 [JStr (''Error: CAD service error: '' @ txt)])
       \<and> (\<not> truthy (js_of cid) \<longrightarrow>
             filter is_failed_update (effects_since w (snd (handler req w))) = []
             \<and> statuses (snd (handler req w)) (js_string cid) = [JStr ''generating_cad''])"
proof -
  let ?w' = "snd (handler req w)"
  let ?rq = "cadReq cid (get_prop job ''vectorized_svg_url'')
               (fst (query_eq gemstone_specs (js_string cid) w)) m"
  note r = region_cad_not_ok[OF assms(3-8)]
  then have r1: "fst (protected_region cid w) = Inl (new_Error (''CAD service error: '' @ txt))"
    by simp
  note hf = handler_failed[OF assms(1,2) r1]
  have d: "db w cad_conversions (js_string cid) = [job]"
    using query_single_Some[OF assms(3)] by simp
  have e: "effects_since w ?w' =
             [Db_select_single cad_conversions (js_string cid),
              Db_update cad_conversions
                [(''status'', JStr ''generating_cad''), (''current_step'', JNum 3)] (js_string cid),
              Db_select gemstone_specs (js_string cid),
              Db_select_single metal_specs (js_string cid),
              cad_call ?rq w] @
             (if truthy (js_of cid)
              then [Db_update cad_conversions
                      [(''status'', JStr ''failed''), (''current_step'', JNum 0),
                       (''error_message'', JStr (''Error: CAD service error: '' @ txt))]
                      (js_string cid)]
              else [])"
    by (rule effects_since_eq) (simp add: hf(2) r)
  have u: "filter is_upload (effects_since w ?w') = []"
    and f: "\<not> truthy (js_of cid) \<Longrightarrow> filter is_failed_update (effects_since w ?w') = []"
    unfolding e by simp_all
  have l: "truthy (js_of cid) \<Longrightarrow> last (trace ?w') =
               Db_update cad_conversions
                 [(''status'', JStr ''failed''), (''current_step'', JNum 0),
                  (''error_message'', JStr (''Error: CAD service error: '' @ txt))]
                 (js_string cid)"
    by (simp add: hf(2))
  have s: "truthy (js_of cid) \<Longrightarrow> statuses ?w' (js_string cid) = [JStr ''failed'']"
      "truthy (js_of cid) \<Longrightarrow> column ?w' (js_string cid) ''error_message'' =
                 [JStr (''Error: CAD service error: '' @ txt)]"
      "\<not> truthy (js_of cid) \<Longrightarrow> statuses ?w' (js_string cid) = [JStr ''generating_cad'']"
    by (simp_all add: hf(2) r d statuses_def column_def get_prop_def)
  show ?thesis
    using hf(1) u f l s by simp
qed

theorem cad_error_fails_witness:
  "req_method (post (Some ''abc123'') (Some ''u1'')) = ''POST''
   \<and> req_json (post (Some ''abc123'') (Some ''u1'')) = Json_members (Some ''abc123'') (Some ''u1'')
   \<and> fst (query_single cad_conversions ''abc123'' (world_of ''abc123'' [metal_abc] cad_500)) =
         Some (job_of ''abc123'')
   \<and> truthy (get_prop (job_of ''abc123'') ''vectorized_svg_url'')
   \<and> fst (query_single metal_specs ''abc123'' (world_of ''abc123'' [metal_abc] cad_500)) = Some metal_abc
   \<and> (\<forall>url init. cad_service (world_of ''abc123'' [metal_abc] cad_500) url init = Resolved cad_500)
   \<and> \<not> resp_ok cad_500
   \<and> resp_text cad_500 = Inr ''boom''
   \<and> truthy (js_of (Some ''abc123''))
   \<and> fst (handler (post (Some ''abc123'') (Some ''u1'')) (world_of ''abc123'' [metal_abc] cad_500)) =
         Returned \<lparr>status = 500, headers = CORS @ [(''Content-Type'', ''application/json'')],
                   body = Some (Obj [(''success'', Val (JBool False)),
                                     (''error'', Val (JStr ''Error: CAD service error: boom''))])\<rparr>
   \<and> filter is_upload
         (effects_since (world_of ''abc123'' [metal_abc] cad_500)
            (snd (handler (post (Some ''abc123'') (Some ''u1'')) (world_of ''abc123'' [metal_abc] cad_500)))) = []
   \<and> statuses
         (snd (handler (post (Some ''abc123'') (Some ''u1'')) (world_of ''abc123'' [metal_abc] cad_500)))
         ''abc123'' = [JStr ''failed'']
   \<and> column
         (snd (handler (post (Some ''abc123'') (Some ''u1'')) (world_of ''abc123'' [metal_abc] cad_500)))
         ''abc123'' ''error_message'' = [JStr ''Error: CAD service error: boom'']"
proof -
  let ?w = "world_of ''abc123'' [metal_abc] cad_500"
  have h1: "req_method (post (Some ''abc123'') (Some ''u1'')) = ''POST''"
    and h2: "req_json (post (Some ''abc123'') (Some ''u1'')) = Json_members (Some ''abc123'') (Some ''u1'')"
    by (simp_all add: post_def)
  have h3: "fst (query_single cad_conversions (js_string (Some ''abc123'')) ?w) = Some (job_of ''abc123'')"
    and h5: "fst (query_single metal_specs (js_string (Some ''abc123'')) ?w) = Some metal_abc"
    and h6: "\<And>url init. cad_service ?w url init = Resolved cad_500"
    by (simp_all add: world_of_def query_single_def js_string_def)
  have h4: "truthy (get_prop (job_of ''abc123'') ''vectorized_svg_url'')"
    by (simp add: job_of_def get_prop_def)
  have h7: "\<not> resp_ok cad_500" and h8: "resp_text cad_500 = Inr ''boom''"
    by (simp_all add: cad_500_def)
  have t: "truthy (js_of (Some ''abc123''))"
    by (simp add: js_of_def)
  show ?thesis
    using cad_error_fails [OF h1 h2 h3 h4 h5 h6 h7 h8] h1 h2 h3 h4 h5 h6 h7 h8 t
    by (simp add: js_string_def)
qed

text \<open>
  C4 as stated fails for the empty conversion id. The job with id \<^verbatim>\<open>""\<close> exists, the
  CAD service is called and answers with an error status; the handler answers 500, issues
  no failed-update, and the job is left in \<open>generating_cad\<close>.
\<close>

theorem cad_error_empty_id_counterexample:
  "req_method (post (Some []) (Some ''u1'')) = ''POST''
   \<and> req_json (post (Some []) (Some ''u1'')) = Json_members (Some []) (Some ''u1'')
   \<and> db (world_of [] [metal_abc] cad_500) cad_conversions [] = [job_of []]
   \<and> cad_service (world_of [] [metal_abc] cad_500) ''https://cad/convert''
        \<lparr>fetch_method = ''POST'', fetch_headers = [(''Content-Type'', ''application/json'')],
         fetch_body = cadReq (Some []) (JStr ''https://x/vec.svg'') (Some []) metal_abc,
         fetch_timeout_ms = 300000\<rparr> = Resolved cad_500
   \<and> \<not> resp_ok cad_500
   \<and> filter is_http
         (effects_since (world_of [] [metal_abc] cad_500)
            (snd (handler (post (Some []) (Some ''u1'')) (world_of [] [metal_abc] cad_500)))) =
       [Http_fetch ''https://cad/convert''
          \<lparr>fetch_method = ''POST'', fetch_headers = [(''Content-Type'', ''application/json'')],
           fetch_body = cadReq (Some []) (JStr ''https://x/vec.svg'') (Some []) metal_abc,
           fetch_timeout_ms = 300000\<rparr>]
   \<and> fst (handler (post (Some []) (Some ''u1'')) (world_of [] [metal_abc] cad_500)) =
         Returned \<lparr>status = 500, headers = CORS @ [(''Content-Type'', ''application/json'')],
                   body = Some (Obj [(''success'', Val (JBool False)),
                                     (''error'', Val (JStr ''Error: CAD service error: boom''))])\<rparr>
   \<and> filter is_failed_update
         (effects_since (world_of [] [metal_abc] cad_500)
            (snd (handler (post (Some []) (Some ''u1'')) (world_of [] [metal_abc] cad_500)))) = []
   \<and> statuses (snd (handler (post (Some []) (Some ''u1'')) (world_of [] [metal_abc] cad_500))) [] =
         [JStr ''generating_cad'']
   \<and> statuses (snd (handler (post (Some []) (Some ''u1'')) (world_of [] [metal_abc] cad_500))) [] \<noteq>
         [JStr ''failed'']"
proof -
  let ?w = "world_of [] [metal_abc] cad_500"
  let ?rq = "cadReq (Some []) (JStr ''https://x/vec.svg'') (Some []) metal_abc"
  have h1: "req_method (post (Some []) (Some ''u1'')) = ''POST''"
    and h2: "req_json (post (Some []) (Some ''u1'')) = Json_members (Some []) (Some ''u1'')"
    by (simp_all add: post_def)
  have q: "fst (query_single cad_conversions (js_string (Some [])) ?w) = Some (job_of [])"
    and m: "fst (query_single metal_specs (js_string (Some [])) ?w) = Some metal_abc"
    and g: "fst (query_eq gemstone_specs [] ?w) = Some []"
    and c: "\<And>url init. cad_service ?w url init = Resolved cad_500"
    and d: "db ?w cad_conversions [] = [job_of []]"
    and url: "CAD_URL ?w = ''https://cad''"
    by (simp_all add: world_of_def query_single_def query_eq_def js_string_def CAD_URL_def)
  have t: "truthy (get_prop (job_of []) ''vectorized_svg_url'')"
    and sv: "get_prop (job_of []) ''vectorized_svg_url'' = JStr ''https://x/vec.svg''"
    by (simp_all add: job_of_def get_prop_def)
  have n: "\<not> resp_ok cad_500" and x: "resp_text cad_500 = Inr ''boom''"
    by (simp_all add: cad_500_def)
  have r: "protected_region (Some []) ?w =
             (Inl (new_Error (''CAD service error: '' @ ''boom'')),
              emit (cad_call ?rq ?w) (before_call [] ?w))"
    using region_cad_not_ok[OF q t m c n x] by (simp add: sv g js_string_def)
  have f: "\<not> truthy (js_of (Some []))"
    by (simp add: js_of_def)
  note hf = handler_failed[OF h1 h2, of ?w "new_Error (''CAD service error: '' @ ''boom'')"]
  have w': "snd (handler (post (Some []) (Some ''u1'')) ?w) = emit (cad_call ?rq ?w) (before_call [] ?w)"
    using hf(2) f by (simp add: r)
  have e: "effects_since ?w (emit (cad_call ?rq ?w) (before_call [] ?w)) =
             [Db_select_single cad_conversions [],
              Db_update cad_conversions
                [(''status'', JStr ''generating_cad''), (''current_step'', JNum 3)] [],
              Db_select gemstone_specs [],
              Db_select_single metal_specs [],
              cad_call ?rq ?w]"
    by (rule effects_since_eq) simp
  have s: "statuses (emit (cad_call ?rq ?w) (before_call [] ?w)) [] = [JStr ''generating_cad'']"
    by (simp add: statuses_def d get_prop_def)
  show ?thesis
    using h1 h2 d c n hf(1) e s by (simp add: w' r url)
qed

subsection \<open>The call of the CAD service\<close>

text \<open>
  C5. Let the run of a POST request reach step 5: the job is found, has a vector URL, and
  the metal lookup returns its row. Then the run contains exactly one HTTP call: a POST
  to \<^verbatim>\<open><CAD_SERVICE_URL>/convert\<close> with the content type \<open>application/json\<close>, an
  abort signal of 300000 ms, and the payload
  \<^verbatim>\<open>{svg_url, design_id, gemstone_specs: [{shape, size_mm, dia_wt, quantity, setting_type}],
  metal_specs: {type, karat, weight_grams, tone}}\<close>, in which \<open>size_mm\<close>, \<open>dia_wt\<close>
  and \<open>weight_grams\<close> are the columns \<open>mm_size\<close>, \<open>dia_wt\<close> and \<open>gold_weight\<close>
  under \<^verbatim>\<open>Number(...)\<close>. When the call rejects, as it does when the signal expires, the
  handler returns: it answers 500 with the stringified error and uploads nothing.
\<close>

theorem cad_call_contract:
  assumes "req_method req = ''POST''"
    and "req_json req = Json_members cid uid"
    and "fst (query_single cad_conversions (js_string cid) w) = Some job"
    and "truthy (get_prop job ''vectorized_svg_url'')"
    and "fst (query_single metal_specs (js_string cid) w) = Some m"
  shows "let url = js_string (CAD_SERVICE_URL w) @ ''/convert'';
             init = \<lparr>fetch_method = ''POST'',
                     fetch_headers = [(''Content-Type'', ''application/json'')],
                     fetch_body =
                       Obj [(''svg_url'', Val (get_prop job ''vectorized_svg_url'')),
                            (''design_id'', Val (js_of cid)),
                            (''gemstone_specs'',
                               Arr (map (\<lambda>g. Obj [(''shape'', Val (get_prop g ''shape'')),
                                                    (''size_mm'', Number_of (get_prop g ''mm_size'')),
                                                    (''dia_wt'', Number_of (get_prop g ''dia_wt'')),
                                                    (''quantity'', Val (get_prop g ''quantity'')),
                                                    (''setting_type'', Val (get_prop g ''setting_type''))])
                                      (case fst (query_eq gemstone_specs (js_string cid) w) of
                                         None \<Rightarrow> [] | Some gs \<Rightarrow> gs))),
                            (''metal_specs'',
                               Obj [(''type'', Val (get_prop m ''color'')),
                                    (''karat'', Val (get_prop m ''karat'')),
                                    (''weight_grams'', Number_of (get_prop m ''gold_weight'')),
                                    (''tone'', Val (get_prop m ''tone''))])],
                     fetch_timeout_ms = 300000\<rparr>
         in filter is_http (effects_since w (snd (handler req w))) = [Http_fetch url init]
            \<and> (cad_service w url init = Rejected err \<longrightarrow>
                  fst (handler req w) =
                    Returned \<lparr>status = 500,
                              headers = CORS @ [(''Content-Type'', ''application/json'')],
                              body = Some (Obj [(''success'', Val (JBool False)),
                                                (''error'', Val (JStr (String_of err)))])\<rparr>
                  \<and> filter is_upload (effects_since w (snd (handler req w))) = [])"
proof -
  let ?rq = "cadReq cid (get_prop job ''vectorized_svg_url'')
               (fst (query_eq gemstone_specs (js_string cid) w)) m"
  let ?init = "\<lparr>fetch_method = ''POST'',
                 fetch_headers = [(''Content-Type'', ''application/json'')],
                 fetch_body = ?rq, fetch_timeout_ms = 300000\<rparr>"
  let ?w' = "snd (handler req w)"
  from handler_called[OF assms] obtain tail where
    e: "effects_since w ?w' =
           [Db_select_single cad_conversions (js_string cid),
            Db_update cad_conversions
              [(''status'', JStr ''generating_cad''), (''current_step'', JNum 3)] (js_string cid),
            Db_select gemstone_specs (js_string cid),
            Db_select_single metal_specs (js_string cid),
            cad_call ?rq w] @ tail"
    and t: "filter is_http tail = []"
    by blast
  have 1: "filter is_http (effects_since w ?w') = [Http_fetch (CAD_URL w @ ''/convert'') ?init]"
    unfolding e using t by simp
  have 2: "fst (handler req w) =
                    Returned \<lparr>status = 500,
                              headers = CORS @ [(''Content-Type'', ''application/json'')],
                              body = Some (Obj [(''success'', Val (JBool False)),
                                                (''error'', Val (JStr (String_of err)))])\<rparr>
           \<and> filter is_upload (effects_since w ?w') = []"
    if rej: "cad_service w (CAD_URL w @ ''/convert'') ?init = Rejected err"
  proof -
    note r = region_cad_rejected[OF assms(3-5) rej]
    then have r1: "fst (protected_region cid w) = Inl err"
      by simp
    note hf = handler_failed[OF assms(1,2) r1]
    have "effects_since w ?w' =
           [Db_select_single cad_conversions (js_string cid),
            Db_update cad_conversions
              [(''status'', JStr ''generating_cad''), (''current_step'', JNum 3)] (js_string cid),
            Db_select gemstone_specs (js_string cid),
            Db_select_single metal_specs (js_string cid),
            cad_call ?rq w] @
           (if truthy (js_of cid)
              then [Db_update cad_conversions
                      [(''status'', JStr ''failed''), (''current_step'', JNum 0),
                       (''error_message'', JStr (String_of err))] (js_string cid)]
              else [])"
      by (rule effects_since_eq) (simp add: hf(2) r)
    then show ?thesis
      using hf(1) by simp
  qed
  show ?thesis
    using 1 2 unfolding Let_def cadReq_explicit CAD_URL_def by blast
qed

theorem cad_call_contract_witness:
  "req_method (post (Some ''abc123'') (Some ''u1'')) = ''POST''
   \<and> req_json (post (Some ''abc123'') (Some ''u1'')) = Json_members (Some ''abc123'') (Some ''u1'')
   \<and> fst (query_single cad_conversions ''abc123'' world_timeout) = Some job_abc
   \<and> truthy (get_prop job_abc ''vectorized_svg_url'')
   \<and> fst (query_single metal_specs ''abc123'' world_timeout) = Some metal_abc
   \<and> filter is_http
         (effects_since world_timeout (snd (handler (post (Some ''abc123'') (Some ''u1'')) world_timeout))) =
       [Http_fetch ''https://cad/convert''
          \<lparr>fetch_method = ''POST'',
           fetch_headers = [(''Content-Type'', ''application/json'')],
           fetch_body =
             Obj [(''svg_url'', Val (JStr ''https://x/vec.svg'')),
                  (''design_id'', Val (JStr ''abc123'')),
                  (''gemstone_specs'', Arr []),
                  (''metal_specs'',
                     Obj [(''type'', Val (JStr ''yellow'')),
                          (''karat'', Val (JNum 18)),
                          (''weight_grams'', Number_of (JStr ''5.2'')),
                          (''tone'', Val (JStr ''warm''))])],
           fetch_timeout_ms = 300000\<rparr>]
   \<and> fst (handler (post (Some ''abc123'') (Some ''u1'')) world_timeout) =
         Returned \<lparr>status = 500,
                   headers = CORS @ [(''Content-Type'', ''application/json'')],
                   body = Some (Obj [(''success'', Val (JBool False)),
                                     (''error'', Val (JStr ''TimeoutError: Signal timed out.''))])\<rparr>
   \<and> filter is_upload
         (effects_since world_timeout (snd (handler (post (Some ''abc123'') (Some ''u1'')) world_timeout))) = []"
proof -
  have h1: "req_method (post (Some ''abc123'') (Some ''u1'')) = ''POST''"
    and h2: "req_json (post (Some ''abc123'') (Some ''u1'')) = Json_members (Some ''abc123'') (Some ''u1'')"
    by (simp_all add: post_def)
  have h3: "fst (query_single cad_conversions (js_string (Some ''abc123'')) world_timeout) = Some job_abc"
    and h5: "fst (query_single metal_specs (js_string (Some ''abc123'')) world_timeout) = Some metal_abc"
    and g: "fst (query_eq gemstone_specs ''abc123'' world_timeout) = Some []"
    and c: "\<And>url init. cad_service world_timeout url init = Rejected timeout_error"
    and u: "CAD_SERVICE_URL world_timeout = Some ''https://cad''"
    by (simp_all add: world_timeout_def world0_def world_of_def query_single_def query_eq_def
          js_string_def job_abc_def)
  have h4: "truthy (get_prop job_abc ''vectorized_svg_url'')"
    and v: "get_prop job_abc ''vectorized_svg_url'' = JStr ''https://x/vec.svg''"
       "get_prop metal_abc ''color'' = JStr ''yellow''"
       "get_prop metal_abc ''karat'' = JNum 18"
       "get_prop metal_abc ''gold_weight'' = JStr ''5.2''"
       "get_prop metal_abc ''tone'' = JStr ''warm''"
    by (simp_all add: job_abc_def job_of_def metal_abc_def get_prop_def)
  have s: "String_of timeout_error = ''TimeoutError: Signal timed out.''"
    by (simp add: String_of_def timeout_error_def)
  show ?thesis
    using cad_call_contract [OF h1 h2 h3 h4 h5, of timeout_error] h1 h2 h3 h4 h5
    by (simp add: Let_def js_string_def js_of_def g c u v s)
qed

subsection \<open>Malformed body\<close>

text \<open>
  C6. A POST request whose body does not parse as JSON is answered with status 400 and
  the body \<^verbatim>\<open>{error: "Invalid JSON"}\<close>; the collaborators' state is returned
  unchanged, so no call at all, and in particular no read or write of the job store,
  has been issued.
\<close>

theorem invalid_json_rejected:
  assumes "req_method req = ''POST''" and "req_json req = Invalid_json"
  shows "handler req w =
           (Returned \<lparr>status = 400,
                      headers = CORS @ [(''Content-Type'', ''application/json'')],
                      body = Some (Obj [(''error'', Val (JStr ''Invalid JSON''))])\<rparr>, w)
         \<and> filter is_job_store (effects_since w (snd (handler req w))) = []"
  using assms by (simp add: handler_def json_headers_def)

theorem invalid_json_rejected_witness:
  "req_method bad_post = ''POST'' \<and> req_json bad_post = Invalid_json \<and>
   handler bad_post world0 =
     (Returned \<lparr>status = 400,
                headers = CORS @ [(''Content-Type'', ''application/json'')],
                body = Some (Obj [(''error'', Val (JStr ''Invalid JSON''))])\<rparr>, world0)
   \<and> filter is_job_store (effects_since world0 (snd (handler bad_post world0))) = []"
  using invalid_json_rejected [of bad_post world0] by (simp add: bad_post_def)

subsection \<open>Unknown job\<close>

text \<open>
  C7, as amended. Let the lookup of the job of a POST request return no row. Then the
  handler answers 500 with the error \<^verbatim>\<open>Error: Conversion not found\<close>. Its run is the
  lookup, followed by the failed-update exactly when \<open>conversionId\<close> is truthy (a
  non-empty string). No table gains or loses a row, and when no job row has this id the
  tables are unchanged: the handler creates no job.
\<close>

theorem unknown_job_fails:
  assumes "req_method req = ''POST''"
    and "req_json req = Json_members cid uid"
    and "fst (query_single cad_conversions (js_string cid) w) = None"
  shows "fst (handler req w) =
           Returned \<lparr>status = 500, headers = CORS @ [(''Content-Type'', ''application/json'')],
                     body = Some (Obj [(''success'', Val (JBool False)),
                                       (''error'', Val (JStr ''Error: Conversion not found''))])\<rparr>
       \<and> effects_since w (snd (handler req w)) =
             Db_select_single cad_conversions (js_string cid) #
             (if truthy (js_of cid)
              then [Db_update cad_conversions
                      [(''status'', JStr ''failed''), (''current_step'', JNum 0),
                       (''error_message'', JStr ''Error: Conversion not found'')]
                      (js_string cid)]
              else [])
       \<and> length (db (snd (handler req w)) t k) = length (db w t k)
       \<and> (db w cad_conversions (js_string cid) = [] \<longrightarrow> db (snd (handler req w)) = db w)"
proof -
  let ?w' = "snd (handler req w)"
  have r: "protected_region cid w =
             (Inl (new_Error ''Conversion not found''),
              emit (Db_select_single cad_conversions (js_string cid)) w)"
    by (rule protected_region_not_found[OF assms(3)])
  then have r1: "fst (protected_region cid w) = Inl (new_Error ''Conversion not found'')"
    by simp
  note hf = handler_failed[OF assms(1,2) r1]
  have e: "effects_since w ?w' =
             Db_select_single cad_conversions (js_string cid) #
             (if truthy (js_of cid)
              then [Db_update cad_conversions
                      [(''status'', JStr ''failed''), (''current_step'', JNum 0),
                       (''error_message'', JStr ''Error: Conversion not found'')]
                      (js_string cid)]
              else [])"
    by (rule effects_since_eq) (simp add: hf(2) r)
  have l: "length (db ?w' t k) = length (db w t k)"
    by (simp add: hf(2) r)
  have u: "db w cad_conversions (js_string cid) = [] \<Longrightarrow> db ?w' = db w"
    by (auto simp: hf(2) r fun_eq_iff)
  show ?thesis
    using hf(1) e l u by simp
qed

theorem unknown_job_fails_witness:
  "req_method (post (Some ''nope'') (Some ''u1'')) = ''POST''
   \<and> req_json (post (Some ''nope'') (Some ''u1'')) = Json_members (Some ''nope'') (Some ''u1'')
   \<and> fst (query_single cad_conversions ''nope'' world0) = None
   \<and> db world0 cad_conversions ''nope'' = []
   \<and> fst (handler (post (Some ''nope'') (Some ''u1'')) world0) =
         Returned \<lparr>status = 500, headers = CORS @ [(''Content-Type'', ''application/json'')],
                   body = Some (Obj [(''success'', Val (JBool False)),
                                     (''error'', Val (JStr ''Error: Conversion not found''))])\<rparr>
   \<and> effects_since world0 (snd (handler (post (Some ''nope'') (Some ''u1'')) world0)) =
         [Db_select_single cad_conversions ''nope'',
          Db_update cad_conversions
            [(''status'', JStr ''failed''), (''current_step'', JNum 0),
             (''error_message'', JStr ''Error: Conversion not found'')]
            ''nope'']
   \<and> db (snd (handler (post (Some ''nope'') (Some ''u1'')) world0)) = db world0"
proof -
  have h1: "req_method (post (Some ''nope'') (Some ''u1'')) = ''POST''"
    and h2: "req_json (post (Some ''nope'') (Some ''u1'')) = Json_members (Some ''nope'') (Some ''u1'')"
    by (simp_all add: post_def)
  have h3: "fst (query_single cad_conversions (js_string (Some ''nope'')) world0) = None"
    and d: "db world0 cad_conversions ''nope'' = []"
    by (simp_all add: world0_def world_of_def query_single_def js_string_def)
  have t: "truthy (js_of (Some ''nope''))"
    by (simp add: js_of_def)
  show ?thesis
    using unknown_job_fails [OF h1 h2 h3] h1 h2 h3 d t
    by (simp add: js_string_def)
qed

text \<open>
  C7 as stated fails for the empty conversion id: the id \<^verbatim>\<open>""\<close> is parsed from the
  body, no job has it, and the run consists of the lookup alone; no failed-update is
  issued.
\<close>

theorem unknown_job_empty_id_counterexample:
  "req_method (post (Some []) (Some ''u1'')) = ''POST''
   \<and> req_json (post (Some []) (Some ''u1'')) = Json_members (Some []) (Some ''u1'')
   \<and> db world0 cad_conversions [] = []
   \<and> fst (handler (post (Some []) (Some ''u1'')) world0) =
         Returned \<lparr>status = 500, headers = CORS @ [(''Content-Type'', ''application/json'')],
                   body = Some (Obj [(''success'', Val (JBool False)),
                                     (''error'', Val (JStr ''Error: Conversion not found''))])\<rparr>
   \<and> effects_since world0 (snd (handler (post (Some []) (Some ''u1'')) world0)) =
         [Db_select_single cad_conversions []]
   \<and> filter is_failed_update
         (effects_since world0 (snd (handler (post (Some []) (Some ''u1'')) world0))) = []"
proof -
  have h1: "req_method (post (Some []) (Some ''u1'')) = ''POST''"
    and h2: "req_json (post (Some []) (Some ''u1'')) = Json_members (Some []) (Some ''u1'')"
    by (simp_all add: post_def)
  have q: "fst (query_single cad_conversions (js_string (Some [])) world0) = None"
    and d: "db world0 cad_conversions [] = []"
    by (simp_all add: world0_def world_of_def query_single_def js_string_def)
  have r: "protected_region (Some []) world0 =
             (Inl (new_Error ''Conversion not found''),
              emit (Db_select_single cad_conversions (js_string (Some []))) world0)"
    by (rule protected_region_not_found[OF q])
  have f: "\<not> truthy (js_of (Some []))"
    by (simp add: js_of_def)
  note hf = handler_failed[OF h1 h2, of world0 "new_Error ''Conversion not found''"]
  have w': "snd (handler (post (Some []) (Some ''u1'')) world0) =
              emit (Db_select_single cad_conversions []) world0"
    using hf(2) f by (simp add: r js_string_def)
  show ?thesis
    using h1 h2 d hf(1) by (simp add: w' r)
qed

subsection \<open>Running the handler twice\<close>




subsection \<open>No gemstone data\<close>

text \<open>
  C9. Let the run of a POST request reach step 4 and let the metal lookup return its
  row. When the gemstone read yields no data, either because the query fails and its
  data is \<^verbatim>\<open>null\<close> or because no row matches, the run goes on: its first five calls
  are the job lookup, the update to \<open>generating_cad\<close>, the two specification reads and
  the call of the CAD service, whose payload has \<open>gemstone_specs\<close> equal to the empty
  list; no failed-update precedes the call. When the service then answers with success
  and a body and the three uploads are accepted, the handler answers 200 and the whole
  run contains no failed-update.
\<close>

theorem empty_gemstones_tolerated:
  assumes "req_method req = ''POST''"
    and "req_json req = Json_members cid uid"
    and "fst (query_single cad_conversions (js_string cid) w) = Some job"
    and "truthy (get_prop job ''vectorized_svg_url'')"
    and "fst (query_single metal_specs (js_string cid) w) = Some m"
    and "fst (query_eq gemstone_specs (js_string cid) w) = None
         \<or> fst (query_eq gemstone_specs (js_string cid) w) = Some []"
  shows "take 5 (effects_since w (snd (handler req w))) =
           [Db_select_single cad_conversions (js_string cid),
            Db_update cad_conversions
              [(''status'', JStr ''generating_cad''), (''current_step'', JNum 3)] (js_string cid),
            Db_select gemstone_specs (js_string cid),
            Db_select_single metal_specs (js_string cid),
            Http_fetch (js_string (CAD_SERVICE_URL w) @ ''/convert'')
              \<lparr>fetch_method = ''POST'',
               fetch_headers = [(''Content-Type'', ''application/json'')],
               fetch_body =
                 Obj [(''svg_url'', Val (get_prop job ''vectorized_svg_url'')),
                      (''design_id'', Val (js_of cid)),
                      (''gemstone_specs'', Arr []),
                      (''metal_specs'',
                         Obj [(''type'', Val (get_prop m ''color'')),
                              (''karat'', Val (get_prop m ''karat'')),
                              (''weight_grams'', Number_of (get_prop m ''gold_weight'')),
                              (''tone'', Val (get_prop m ''tone''))])],
               fetch_timeout_ms = 300000\<rparr>]
       \<and> ((\<forall>url init. cad_service w url init = Resolved resp) \<and> resp_ok resp
            \<and> resp_json resp = Inr (Cad_obj sf tf obf)
            \<and> upload_fault w (''step/design_'' @ js_string cid @ ''.step'') = None
            \<and> upload_fault w (''stl/design_'' @ js_string cid @ ''.stl'') = None
            \<and> upload_fault w (''obj/design_'' @ js_string cid @ ''.obj'') = None \<longrightarrow>
            fst (handler req w) =
              Returned \<lparr>status = 200, headers = CORS,
                        body = Some (Obj [(''success'', Val (JBool True)),
                                          (''conversionId'', Val (js_of cid))])\<rparr>
            \<and> filter is_failed_update (effects_since w (snd (handler req w))) = [])"
proof -
  let ?rq = "cadReq cid (get_prop job ''vectorized_svg_url'')
               (fst (query_eq gemstone_specs (js_string cid) w)) m"
  let ?w' = "snd (handler req w)"
  from handler_called[OF assms(1-5)] obtain tail where
    e: "effects_since w ?w' =
           [Db_select_single cad_conversions (js_string cid),
            Db_update cad_conversions
              [(''status'', JStr ''generating_cad''), (''current_step'', JNum 3)] (js_string cid),
            Db_select gemstone_specs (js_string cid),
            Db_select_single metal_specs (js_string cid),
            cad_call ?rq w] @ tail"
    by blast
  have rq: "?rq =
         Obj [(''svg_url'', Val (get_prop job ''vectorized_svg_url'')),
              (''design_id'', Val (js_of cid)),
              (''gemstone_specs'', Arr []),
              (''metal_specs'',
                 Obj [(''type'', Val (get_prop m ''color'')),
                      (''karat'', Val (get_prop m ''karat'')),
                      (''weight_grams'', Number_of (get_prop m ''gold_weight'')),
                      (''tone'', Val (get_prop m ''tone''))])]"
    using assms(6) by (auto simp: cadReq_explicit)
  have 1: "take 5 (effects_since w ?w') =
           [Db_select_single cad_conversions (js_string cid),
            Db_update cad_conversions
              [(''status'', JStr ''generating_cad''), (''current_step'', JNum 3)] (js_string cid),
            Db_select gemstone_specs (js_string cid),
            Db_select_single metal_specs (js_string cid),
            cad_call ?rq w]"
    unfolding e by simp
  have 2: "fst (handler req w) =
              Returned \<lparr>status = 200, headers = CORS,
                        body = Some (Obj [(''success'', Val (JBool True)),
                                          (''conversionId'', Val (js_of cid))])\<rparr>
           \<and> filter is_failed_update (effects_since w ?w') = []"
    if c: "\<And>url init. cad_service w url init = Resolved resp" and ok: "resp_ok resp"
      and j: "resp_json resp = Inr (Cad_obj sf tf obf)"
      and up: "upload_fault w (''step/design_'' @ js_string cid @ ''.step'') = None"
        "upload_fault w (''stl/design_'' @ js_string cid @ ''.stl'') = None"
        "upload_fault w (''obj/design_'' @ js_string cid @ ''.obj'') = None"
  proof -
    note sr = success_run[OF assms(1-5) c ok j up]
    have "filter is_failed_update (effects_since w ?w') = []"
      by (simp add: effects_since_def sr(2))
    with sr(1) show ?thesis by simp
  qed
  show ?thesis
    using 1 2 unfolding rq CAD_URL_def by blast
qed

theorem empty_gemstones_tolerated_witness:
  "(req_method (post (Some ''abc123'') (Some ''u1'')) = ''POST''
   \<and> req_json (post (Some ''abc123'') (Some ''u1'')) = Json_members (Some ''abc123'') (Some ''u1'')
   \<and> fst (query_single cad_conversions ''abc123'' world0) = Some job_abc
   \<and> truthy (get_prop job_abc ''vectorized_svg_url'')
   \<and> fst (query_single metal_specs ''abc123'' world0) = Some metal_abc
   \<and> fst (query_eq gemstone_specs ''abc123'' world0) = Some []
   \<and> (\<forall>url init. cad_service world0 url init = Resolved cad_ok) \<and> resp_ok cad_ok
   \<and> resp_json cad_ok = Inr (Cad_obj (Some ''STEP'') (Some ''STL'') (Some ''OBJ''))
   \<and> upload_fault world0 ''step/design_abc123.step'' = None
   \<and> upload_fault world0 ''stl/design_abc123.stl'' = None
   \<and> upload_fault world0 ''obj/design_abc123.obj'' = None
   \<and> take 5 (effects_since world0 (snd (handler (post (Some ''abc123'') (Some ''u1'')) world0))) =
       [Db_select_single cad_conversions ''abc123'',
        Db_update cad_conversions
          [(''status'', JStr ''generating_cad''), (''current_step'', JNum 3)] ''abc123'',
        Db_select gemstone_specs ''abc123'',
        Db_select_single metal_specs ''abc123'',
        Http_fetch ''https://cad/convert''
          \<lparr>fetch_method = ''POST'',
           fetch_headers = [(''Content-Type'', ''application/json'')],
           fetch_body =
             Obj [(''svg_url'', Val (JStr ''https://x/vec.svg'')),
                  (''design_id'', Val (JStr ''abc123'')),
                  (''gemstone_specs'', Arr []),
                  (''metal_specs'',
                     Obj [(''type'', Val (JStr ''yellow'')),
                          (''karat'', Val (JNum 18)),
                          (''weight_grams'', Number_of (JStr ''5.2'')),
                          (''tone'', Val (JStr ''warm''))])],
           fetch_timeout_ms = 300000\<rparr>]
   \<and> fst (handler (post (Some ''abc123'') (Some ''u1'')) world0) =
         Returned \<lparr>status = 200, headers = CORS,
                   body = Some (Obj [(''success'', Val (JBool True)),
                                     (''conversionId'', Val (JStr ''abc123''))])\<rparr>
   \<and> filter is_failed_update
         (effects_since world0 (snd (handler (post (Some ''abc123'') (Some ''u1'')) world0))) = [])
   \<and> (fst (query_single cad_conversions ''abc123'' world_gem_fault) = Some job_abc
   \<and> fst (query_single metal_specs ''abc123'' world_gem_fault) = Some metal_abc
   \<and> fst (query_eq gemstone_specs ''abc123'' world_gem_fault) = None
   \<and> take 5 (effects_since world_gem_fault (snd (handler (post (Some ''abc123'') (Some ''u1'')) world_gem_fault))) =
       [Db_select_single cad_conversions ''abc123'',
        Db_update cad_conversions
          [(''status'', JStr ''generating_cad''), (''current_step'', JNum 3)] ''abc123'',
        Db_select gemstone_specs ''abc123'',
        Db_select_single metal_specs ''abc123'',
        Http_fetch ''https://cad/convert''
          \<lparr>fetch_method = ''POST'',
           fetch_headers = [(''Content-Type'', ''application/json'')],
           fetch_body =
             Obj [(''svg_url'', Val (JStr ''https://x/vec.svg'')),
                  (''design_id'', Val (JStr ''abc123'')),
                  (''gemstone_specs'', Arr []),
                  (''metal_specs'',
                     Obj [(''type'', Val (JStr ''yellow'')),
                          (''karat'', Val (JNum 18)),
                          (''weight_grams'', Number_of (JStr ''5.2'')),
                          (''tone'', Val (JStr ''warm''))])],
           fetch_timeout_ms = 300000\<rparr>]
   \<and> fst (handler (post (Some ''abc123'') (Some ''u1'')) world_gem_fault) =
         Returned \<lparr>status = 200, headers = CORS,
                   body = Some (Obj [(''success'', Val (JBool True)),
                                     (''conversionId'', Val (JStr ''abc123''))])\<rparr>)"
  (is "?zero_rows \<and> ?query_error")
proof -
  have zero_rows: ?zero_rows
  proof -
    have h1: "req_method (post (Some ''abc123'') (Some ''u1'')) = ''POST''"
      and h2: "req_json (post (Some ''abc123'') (Some ''u1'')) = Json_members (Some ''abc123'') (Some ''u1'')"
      by (simp_all add: post_def)
    have h3: "fst (query_single cad_conversions (js_string (Some ''abc123'')) world0) = Some job_abc"
      and h5: "fst (query_single metal_specs (js_string (Some ''abc123'')) world0) = Some metal_abc"
      and g: "fst (query_eq gemstone_specs (js_string (Some ''abc123'')) world0) = Some []"
      and c: "\<And>url init. cad_service world0 url init = Resolved cad_ok"
      and u: "CAD_SERVICE_URL world0 = Some ''https://cad''"
      by (simp_all add: world0_def world_of_def query_single_def query_eq_def js_string_def job_abc_def)
    have h4: "truthy (get_prop job_abc ''vectorized_svg_url'')"
      and v: "get_prop job_abc ''vectorized_svg_url'' = JStr ''https://x/vec.svg''"
         "get_prop metal_abc ''color'' = JStr ''yellow''"
         "get_prop metal_abc ''karat'' = JNum 18"
         "get_prop metal_abc ''gold_weight'' = JStr ''5.2''"
         "get_prop metal_abc ''tone'' = JStr ''warm''"
      by (simp_all add: job_abc_def job_of_def metal_abc_def get_prop_def)
    have k: "resp_ok cad_ok" "resp_json cad_ok = Inr (Cad_obj (Some ''STEP'') (Some ''STL'') (Some ''OBJ''))"
      by (simp_all add: cad_ok_def)
    have f: "\<And>p. upload_fault world0 p = None"
      by (simp add: world0_def world_of_def)
    have h6: "fst (query_eq gemstone_specs (js_string (Some ''abc123'')) world0) = None
           \<or> fst (query_eq gemstone_specs (js_string (Some ''abc123'')) world0) = Some []"
      using g by simp
    show ?thesis
      using empty_gemstones_tolerated [OF h1 h2 h3 h4 h5 h6, of cad_ok "Some ''STEP''" "Some ''STL''" "Some ''OBJ''"]
        h1 h2 h3 h4 h5 g c k
      by (simp add: js_string_def js_of_def u v f)
  qed
  have query_error: ?query_error
  proof -
    have h1: "req_method (post (Some ''abc123'') (Some ''u1'')) = ''POST''"
      and h2: "req_json (post (Some ''abc123'') (Some ''u1'')) = Json_members (Some ''abc123'') (Some ''u1'')"
      by (simp_all add: post_def)
    have h3: "fst (query_single cad_conversions (js_string (Some ''abc123'')) world_gem_fault) = Some job_abc"
      and h5: "fst (query_single metal_specs (js_string (Some ''abc123'')) world_gem_fault) = Some metal_abc"
      and g: "fst (query_eq gemstone_specs (js_string (Some ''abc123'')) world_gem_fault) = None"
      and c: "\<And>url init. cad_service world_gem_fault url init = Resolved cad_ok"
      and u: "CAD_SERVICE_URL world_gem_fault = Some ''https://cad''"
      and f: "\<And>p. upload_fault world_gem_fault p = None"
      by (simp_all add: world_gem_fault_def world0_def world_of_def query_single_def query_eq_def
            js_string_def job_abc_def)
    have h4: "truthy (get_prop job_abc ''vectorized_svg_url'')"
      and v: "get_prop job_abc ''vectorized_svg_url'' = JStr ''https://x/vec.svg''"
         "get_prop metal_abc ''color'' = JStr ''yellow''"
         "get_prop metal_abc ''karat'' = JNum 18"
         "get_prop metal_abc ''gold_weight'' = JStr ''5.2''"
         "get_prop metal_abc ''tone'' = JStr ''warm''"
      by (simp_all add: job_abc_def job_of_def metal_abc_def get_prop_def)
    have k: "resp_ok cad_ok" "resp_json cad_ok = Inr (Cad_obj (Some ''STEP'') (Some ''STL'') (Some ''OBJ''))"
      by (simp_all add: cad_ok_def)
    have h6: "fst (query_eq gemstone_specs (js_string (Some ''abc123'')) world_gem_fault) = None
           \<or> fst (query_eq gemstone_specs (js_string (Some ''abc123'')) world_gem_fault) = Some []"
      using g by simp
    show ?thesis
      using empty_gemstones_tolerated [OF h1 h2 h3 h4 h5 h6, of cad_ok "Some ''STEP''" "Some ''STL''" "Some ''OBJ''"]
        h1 h2 h3 h4 h5 g c k
      by (simp add: js_string_def js_of_def u v f)
  qed
  show ?thesis
    using zero_rows query_error by (rule conjI)
qed

subsection \<open>The user id\<close>

text \<open>
  C10. Two requests that agree on the method and on \<open>conversionId\<close> and differ at most
  in \<open>userId\<close> give the same outcome and the same final state, trace of calls
  included: \<open>userId\<close> is never read after the destructuring.
\<close>

theorem userId_irrelevant:
  assumes "req_method r1 = req_method r2"
    and "req_json r1 = Json_members conversionId userId1"
    and "req_json r2 = Json_members conversionId userId2"
  shows "handler r1 w = handler r2 w"
  using assms by (simp add: handler_def)

theorem userId_irrelevant_witness:
  "req_method (post (Some ''abc123'') (Some ''u1'')) = req_method (post (Some ''abc123'') (Some ''u2''))
   \<and> req_json (post (Some ''abc123'') (Some ''u1'')) = Json_members (Some ''abc123'') (Some ''u1'')
   \<and> req_json (post (Some ''abc123'') (Some ''u2'')) = Json_members (Some ''abc123'') (Some ''u2'')
   \<and> handler (post (Some ''abc123'') (Some ''u1'')) world0 =
       handler (post (Some ''abc123'') (Some ''u2'')) world0"
  using userId_irrelevant [of "post (Some ''abc123'') (Some ''u1'')" "post (Some ''abc123'') (Some ''u2'')"
          "Some ''abc123''" "Some ''u1''" "Some ''u2''" world0]
  by (simp add: post_def)

end
